theory Spec2Isabelle
  imports Complex_Main
begin

section \<open>Floating-point scalars and numpy arrays\<close>

text \<open>
  The likelihood engines compute with numpy floats. A float is modelled as a real number,
  one of the two infinities, or NaN. Arithmetic on finite values is exact (no rounding, no
  overflow, no signed zero); the exceptional cases follow numpy, which returns an infinity
  or NaN with a warning instead of raising: \<open>1/0 = inf\<close>, \<open>0/0 = nan\<close>,
  \<open>sqrt(-1) = nan\<close>, \<open>log(0) = -inf\<close>, \<open>10.0**(-inf) = 0\<close>, and every
  comparison with NaN is false.
\<close>

datatype npfloat = Fin real | PInf | NInf | NaN

fun np_neg :: "npfloat \<Rightarrow> npfloat" where
  "np_neg (Fin x) = Fin (- x)"
| "np_neg PInf = NInf"
| "np_neg NInf = PInf"
| "np_neg NaN = NaN"

fun np_abs :: "npfloat \<Rightarrow> npfloat" where
  "np_abs (Fin x) = Fin \<bar>x\<bar>"
| "np_abs PInf = PInf"
| "np_abs NInf = PInf"
| "np_abs NaN = NaN"

fun np_add :: "npfloat \<Rightarrow> npfloat \<Rightarrow> npfloat" where
  "np_add (Fin x) (Fin y) = Fin (x + y)"
| "np_add NaN b = NaN"
| "np_add a NaN = NaN"
| "np_add PInf NInf = NaN"
| "np_add NInf PInf = NaN"
| "np_add PInf b = PInf"
| "np_add a PInf = PInf"
| "np_add NInf b = NInf"
| "np_add a NInf = NInf"

definition np_sub :: "npfloat \<Rightarrow> npfloat \<Rightarrow> npfloat" where
  "np_sub a b = np_add a (np_neg b)"

fun np_mul :: "npfloat \<Rightarrow> npfloat \<Rightarrow> npfloat" where
  "np_mul (Fin x) (Fin y) = Fin (x * y)"
| "np_mul NaN b = NaN"
| "np_mul a NaN = NaN"
| "np_mul PInf (Fin y) = (if y = 0 then NaN else if 0 < y then PInf else NInf)"
| "np_mul NInf (Fin y) = (if y = 0 then NaN else if 0 < y then NInf else PInf)"
| "np_mul (Fin x) PInf = (if x = 0 then NaN else if 0 < x then PInf else NInf)"
| "np_mul (Fin x) NInf = (if x = 0 then NaN else if 0 < x then NInf else PInf)"
| "np_mul PInf PInf = PInf"
| "np_mul NInf NInf = PInf"
| "np_mul PInf NInf = NInf"
| "np_mul NInf PInf = NInf"

fun np_div :: "npfloat \<Rightarrow> npfloat \<Rightarrow> npfloat" where
  "np_div (Fin x) (Fin y) =
     (if y \<noteq> 0 then Fin (x / y)
      else if 0 < x then PInf else if x < 0 then NInf else NaN)"
| "np_div NaN b = NaN"
| "np_div a NaN = NaN"
| "np_div (Fin x) PInf = Fin 0"
| "np_div (Fin x) NInf = Fin 0"
| "np_div PInf (Fin y) = (if 0 \<le> y then PInf else NInf)"
| "np_div NInf (Fin y) = (if 0 \<le> y then NInf else PInf)"
| "np_div PInf b = NaN"
| "np_div NInf b = NaN"

fun np_sqrt :: "npfloat \<Rightarrow> npfloat" where
  "np_sqrt (Fin x) = (if 0 \<le> x then Fin (sqrt x) else NaN)"
| "np_sqrt PInf = PInf"
| "np_sqrt NInf = NaN"
| "np_sqrt NaN = NaN"

text \<open>\<open>numpy.log\<close>, the natural logarithm.\<close>

fun np_log :: "npfloat \<Rightarrow> npfloat" where
  "np_log (Fin x) = (if 0 < x then Fin (ln x) else if x = 0 then NInf else NaN)"
| "np_log PInf = PInf"
| "np_log NInf = NaN"
| "np_log NaN = NaN"

text \<open>\<open>numpy.log10\<close>.\<close>

fun np_log10 :: "npfloat \<Rightarrow> npfloat" where
  "np_log10 (Fin x) = (if 0 < x then Fin (log 10 x) else if x = 0 then NInf else NaN)"
| "np_log10 PInf = PInf"
| "np_log10 NInf = NaN"
| "np_log10 NaN = NaN"

text \<open>The expression \<open>10.0**x\<close>.\<close>

fun pow10 :: "npfloat \<Rightarrow> npfloat" where
  "pow10 (Fin x) = Fin (10 powr x)"
| "pow10 PInf = PInf"
| "pow10 NInf = Fin 0"
| "pow10 NaN = NaN"

fun np_lt :: "npfloat \<Rightarrow> npfloat \<Rightarrow> bool" where
  "np_lt (Fin x) (Fin y) = (x < y)"
| "np_lt NaN b = False"
| "np_lt a NaN = False"
| "np_lt a NInf = False"
| "np_lt PInf b = False"
| "np_lt NInf b = True"
| "np_lt a PInf = True"

definition np_gt :: "npfloat \<Rightarrow> npfloat \<Rightarrow> bool" where
  "np_gt a b = np_lt b a"

fun np_ge :: "npfloat \<Rightarrow> npfloat \<Rightarrow> bool" where
  "np_ge (Fin x) (Fin y) = (y \<le> x)"
| "np_ge NaN b = False"
| "np_ge a NaN = False"
| "np_ge PInf b = True"
| "np_ge a NInf = True"
| "np_ge NInf b = False"
| "np_ge a PInf = False"

definition np_isinf :: "npfloat \<Rightarrow> bool" where
  "np_isinf a = (a = PInf \<or> a = NInf)"

definition np_isneginf :: "npfloat \<Rightarrow> bool" where
  "np_isneginf a = (a = NInf)"

text \<open>
  A one-dimensional array is a list of floats, a two-dimensional array the list of its rows.
  The arrays of one call are taken to be conformal (the shapes that \<open>numpy.matmul\<close> and
  \<open>numpy.dot\<close> accept), so the products below are total; a matrix without rows has
  shape \<open>(0, 0)\<close>.
\<close>

type_synonym vec = "npfloat list"
type_synonym mat = "npfloat list list"

definition shape :: "mat \<Rightarrow> int \<times> int" where
  "shape X = (int (length X), (case X of [] \<Rightarrow> 0 | r # _ \<Rightarrow> int (length r)))"

definition np_sum :: "vec \<Rightarrow> npfloat" where
  "np_sum xs = foldl np_add (Fin 0) xs"

definition dot :: "vec \<Rightarrow> vec \<Rightarrow> npfloat" where
  "dot u v = np_sum (map2 np_mul u v)"

definition mat_vec :: "mat \<Rightarrow> vec \<Rightarrow> vec" where
  "mat_vec A v = map (\<lambda>row. dot row v) A"

definition matmul :: "mat \<Rightarrow> mat \<Rightarrow> mat" where
  "matmul A B = map (\<lambda>row. map (\<lambda>col. dot row col) (transpose B)) A"

definition vec_sub :: "vec \<Rightarrow> vec \<Rightarrow> vec" where
  "vec_sub u v = map2 np_sub u v"

fun trace :: "mat \<Rightarrow> npfloat" where
  "trace [] = Fin 0"
| "trace ([] # rs) = Fin 0"
| "trace ((x # r) # rs) = np_add x (trace (map tl rs))"

definition drop_nth :: "nat \<Rightarrow> 'a list \<Rightarrow> 'a list" where
  "drop_nth j xs = take j xs @ drop (Suc j) xs"

text \<open>
  \<open>numpy.linalg.det\<close> and \<open>numpy.linalg.inv\<close> in exact arithmetic: the determinant by
  expansion along the first row, the inverse as the adjugate over the determinant. The
  inverse of a matrix that is not square, or that is singular, raises \<open>LinAlgError\<close>.
\<close>

fun linalg_det :: "mat \<Rightarrow> npfloat" where
  "linalg_det [] = Fin 1"
| "linalg_det (r # rs) =
     np_sum (map (\<lambda>j. np_mul (np_mul (Fin ((- 1) ^ j)) (r ! j))
                           (linalg_det (map (drop_nth j) rs)))
                 [0..<length r])"

datatype error =
    IndexError
  | TypeError
  | LinAlgError
  | ValueError string
  | NameError string
  | UnboundLocalError string

definition bind_e :: "error + 'a \<Rightarrow> ('a \<Rightarrow> error + 'b) \<Rightarrow> error + 'b" where
  "bind_e r f = (case r of Inl e \<Rightarrow> Inl e | Inr v \<Rightarrow> f v)"

definition is_square :: "mat \<Rightarrow> bool" where
  "is_square A = list_all (\<lambda>r. length r = length A) A"

definition cofactor :: "mat \<Rightarrow> nat \<Rightarrow> nat \<Rightarrow> npfloat" where
  "cofactor A i j =
     np_mul (Fin ((- 1) ^ (i + j))) (linalg_det (map (drop_nth j) (drop_nth i A)))"

definition linalg_inv :: "mat \<Rightarrow> error + mat" where
  "linalg_inv A =
     (if \<not> is_square A then Inl LinAlgError
      else let d = linalg_det A in
        if d = Fin 0 then Inl LinAlgError
        else Inr (map (\<lambda>i. map (\<lambda>j. np_div (cofactor A j i) d) [0..<length A])
                      [0..<length A]))"


section \<open>The covariance operator\<close>

text \<open>
  The correlation operator \<open>mixed_cor\<close> and the covariance object \<open>cov\<close> that owns it
  are collaborators outside the likelihood modules; their methods are parameters of the
  model. Both read one mutable length-scale, the state \<open>scale\<close> (\<open>None\<close> while unset),
  which \<open>set_distance_scale\<close> overwrites; every method takes the current state.
\<close>

type_synonym scale = "vec option"

record mixed_cor =
  solve :: "scale \<Rightarrow> npfloat \<Rightarrow> mat \<Rightarrow> mat"
  logdet :: "scale \<Rightarrow> npfloat \<Rightarrow> npfloat"
  traceinv :: "scale \<Rightarrow> npfloat \<Rightarrow> nat \<Rightarrow> npfloat"

text \<open>\<open>mixed_cor.solve(eta, z)\<close> on a one-dimensional right-hand side.\<close>

definition solve_vec :: "mixed_cor \<Rightarrow> scale \<Rightarrow> npfloat \<Rightarrow> vec \<Rightarrow> vec" where
  "solve_vec mc st eta z = concat (solve mc st eta (map (\<lambda>x. [x]) z))"

datatype hyperparam = Scalar npfloat | Array vec

text \<open>The guarded \<open>set_distance_scale(numpy.abs(hyperparam[1:]))\<close> that opens the
  likelihood and its \<open>eta\<close> derivatives.\<close>

definition set_scale_from_hyperparam :: "scale \<Rightarrow> hyperparam \<Rightarrow> scale" where
  "set_scale_from_hyperparam st hyperparam =
     (case hyperparam of
        Scalar x \<Rightarrow> st
      | Array a \<Rightarrow> if 1 < length a then Some (map np_abs (tl a)) else st)"

text \<open>\<open>log_eta = hyperparam\<close> for a scalar, \<open>hyperparam[0]\<close> otherwise.\<close>

definition get_log_eta :: "hyperparam \<Rightarrow> error + npfloat" where
  "get_log_eta hyperparam =
     (case hyperparam of
        Scalar x \<Rightarrow> Inr x
      | Array a \<Rightarrow> (case a of [] \<Rightarrow> Inl IndexError | x # xs \<Rightarrow> Inr x))"

text \<open>\<open>eta = 0.0 if numpy.isneginf(log_eta) else 10.0**log_eta\<close>.\<close>

definition log_eta_to_eta :: "npfloat \<Rightarrow> npfloat" where
  "log_eta_to_eta log_eta = (if np_isneginf log_eta then Fin 0 else pow10 log_eta)"

section \<open>Collaborators outside the two likelihood modules\<close>

text \<open>
  The covariance object: \<open>cov.mixed_cor\<close>, \<open>cov.solve(sigma, sigma0, .)\<close>,
  \<open>cov.get_matrix(sigma, sigma0, derivative=[...])\<close> and
  \<open>cov.dot(sigma, sigma0, ., derivative=[...])\<close>.
\<close>

record covariance =
  mixed_cor_of :: mixed_cor
  cov_solve :: "scale \<Rightarrow> npfloat \<Rightarrow> npfloat \<Rightarrow> mat \<Rightarrow> mat"
  get_matrix :: "scale \<Rightarrow> npfloat \<Rightarrow> npfloat \<Rightarrow> nat list \<Rightarrow> mat"
  cov_dot :: "scale \<Rightarrow> npfloat \<Rightarrow> npfloat \<Rightarrow> mat \<Rightarrow> nat list \<Rightarrow> mat"

definition cov_dot_vec ::
  "covariance \<Rightarrow> scale \<Rightarrow> npfloat \<Rightarrow> npfloat \<Rightarrow> vec \<Rightarrow> nat list \<Rightarrow> vec" where
  "cov_dot_vec cov st sigma sigma0 v derivative =
     concat (cov_dot cov st sigma sigma0 (map (\<lambda>x. [x]) v) derivative)"

text \<open>The record that \<open>scipy.optimize.minimize\<close> returns: \<open>x\<close>, \<open>fun\<close>, \<open>nit\<close>.\<close>

record optimize_result =
  opt_x :: vec
  opt_fun :: npfloat
  opt_nit :: nat

datatype scalar_or_matrix = Scalar2 npfloat | Matrix mat

text \<open>
  Functions that the modules import and whose code is elsewhere: the two root-finding
  helpers of \<open>_root_finding\<close>, \<open>M_dot\<close> of \<open>_likelihood_utilities\<close>, \<open>imate.trace\<close>
  and \<open>scipy.optimize.minimize\<close>. They are parameters. A callback handed to them takes
  the operator state and returns the state it leaves.
  \<^item> \<open>find_interval_with_sign_change f bracket num_trials\<close> returns
    \<open>(bracket_found, bracket, bracket_values)\<close>;
  \<^item> \<open>chandrupatla_method f bracket bracket_values eps_m eps_a maxiter\<close> returns the
    root and the iteration count;
  \<^item> \<open>minimize method tol fun jac hess x0\<close>.
\<close>

record externals =
  find_interval_with_sign_change ::
    "(npfloat \<Rightarrow> error + npfloat) \<Rightarrow> npfloat \<times> npfloat \<Rightarrow> nat
       \<Rightarrow> error + bool \<times> (npfloat \<times> npfloat) \<times> (npfloat \<times> npfloat)"
  chandrupatla_method ::
    "(npfloat \<Rightarrow> error + npfloat) \<Rightarrow> npfloat \<times> npfloat \<Rightarrow> npfloat \<times> npfloat
       \<Rightarrow> npfloat \<Rightarrow> npfloat \<Rightarrow> nat \<Rightarrow> error + npfloat \<times> nat"
  M_dot :: "covariance \<Rightarrow> scale \<Rightarrow> mat \<Rightarrow> mat \<Rightarrow> npfloat \<Rightarrow> npfloat \<Rightarrow> vec \<Rightarrow> vec"
  imate_trace :: "mat \<Rightarrow> npfloat"
  minimize ::
    "string \<Rightarrow> npfloat
       \<Rightarrow> (vec \<Rightarrow> scale \<Rightarrow> (error + npfloat) \<times> scale)
       \<Rightarrow> (vec \<Rightarrow> scale \<Rightarrow> (error + hyperparam) \<times> scale)
       \<Rightarrow> (vec \<Rightarrow> scale \<Rightarrow> (error + scalar_or_matrix) \<times> scale)
       \<Rightarrow> vec \<Rightarrow> scale \<Rightarrow> (error + optimize_result) \<times> scale"

definition bind_se ::
  "(error + 'a) \<times> scale \<Rightarrow> ('a \<Rightarrow> scale \<Rightarrow> (error + 'b) \<times> scale) \<Rightarrow> (error + 'b) \<times> scale" where
  "bind_se r f = (case r of (Inl e, st) \<Rightarrow> (Inl e, st) | (Inr v, st) \<Rightarrow> f v st)"

section \<open>ProfileLikelihood\<close>

definition max_eta :: npfloat where
  "max_eta = Fin (10 ^ 16)"

definition min_eta :: npfloat where
  "min_eta = Fin (1 / 10 ^ 16)"

definition find_optimal_sigma0 :: "vec \<Rightarrow> mat \<Rightarrow> error + npfloat" where
  "find_optimal_sigma0 z X =
     (let (n, m) = shape X;
          B = matmul (transpose X) X
      in bind_e (linalg_inv B) (\<lambda>Binv.
           let Xtz = mat_vec (transpose X) z;
               v = mat_vec X (mat_vec Binv Xtz);
               sigma02 = np_div (dot z (vec_sub z v)) (Fin (of_int (n - m)));
               sigma0 = np_sqrt sigma02
           in Inr sigma0))"

definition find_optimal_sigma :: "mixed_cor \<Rightarrow> scale \<Rightarrow> vec \<Rightarrow> mat \<Rightarrow> npfloat \<Rightarrow> error + npfloat" where
  "find_optimal_sigma mc st z X eta =
     (let Y = solve mc st eta X;
          w = solve_vec mc st eta z;
          (n, m) = shape X;
          B = matmul (transpose X) Y
      in bind_e (linalg_inv B) (\<lambda>Binv.
           let Ytz = mat_vec (transpose Y) z;
               v = mat_vec Y (mat_vec Binv Ytz);
               sigma2 = np_div (dot z (vec_sub w v)) (Fin (of_int (n - m)));
               sigma = np_sqrt sigma2
           in Inr sigma))"

definition find_optimal_sigma_sigma0 ::
  "mixed_cor \<Rightarrow> scale \<Rightarrow> vec \<Rightarrow> mat \<Rightarrow> npfloat \<Rightarrow> error + npfloat \<times> npfloat" where
  "find_optimal_sigma_sigma0 mc st z X eta =
     (if np_gt (np_abs eta) max_eta then
        bind_e (find_optimal_sigma0 z X) (\<lambda>sigma0.
          let sigma = (if np_isinf eta then Fin 0 else np_div sigma0 (np_sqrt eta))
          in Inr (sigma, sigma0))
      else
        bind_e (find_optimal_sigma mc st z X eta) (\<lambda>sigma.
          let sigma0 = (if np_lt (np_abs eta) min_eta then Fin 0
                        else np_mul (np_sqrt eta) sigma)
          in Inr (sigma, sigma0)))"

text \<open>
  \<open>likelihood\<close> returns the value (or the exception) together with the operator state it
  leaves behind.
\<close>

definition likelihood ::
  "mixed_cor \<Rightarrow> scale \<Rightarrow> vec \<Rightarrow> mat \<Rightarrow> bool \<Rightarrow> hyperparam \<Rightarrow> (error + npfloat) \<times> scale" where
  "likelihood mc st z X sign_switch hyperparam =
     (let st1 = set_scale_from_hyperparam st hyperparam
      in (bind_e (get_log_eta hyperparam) (\<lambda>log_eta.
            let eta = log_eta_to_eta log_eta;
                (n, m) = shape X
            in bind_e
                 (if np_ge (np_abs eta) max_eta then
                    let B = matmul (transpose X) X
                    in bind_e (linalg_inv B) (\<lambda>Binv.
                         let logdet_Binv = np_log (linalg_det Binv)
                         in bind_e (find_optimal_sigma0 z X) (\<lambda>sigma0.
                              Inr (np_sub
                                    (np_sub
                                      (np_sub (Fin (- 0.5 * of_int (n - m) * ln (2 * pi)))
                                              (np_mul (Fin (of_int (n - m))) (np_log sigma0)))
                                      (np_mul (Fin 0.5) logdet_Binv))
                                    (Fin (0.5 * of_int (n - m))))))
                  else
                    bind_e (find_optimal_sigma mc st1 z X eta) (\<lambda>sigma.
                      let logdet_Kn = logdet mc st1 eta;
                          Y = solve mc st1 eta X;
                          XtKninvX = matmul (transpose X) Y;
                          logdet_XtKninvX = np_log (linalg_det XtKninvX)
                      in Inr (np_sub
                               (np_sub
                                 (np_sub
                                   (np_sub (Fin (- 0.5 * of_int (n - m) * ln (2 * pi)))
                                           (np_mul (Fin (of_int (n - m))) (np_log sigma)))
                                   (np_mul (Fin 0.5) logdet_Kn))
                                 (np_mul (Fin 0.5) logdet_XtKninvX))
                               (Fin (0.5 * of_int (n - m))))))
                 (\<lambda>lp. Inr (if sign_switch then np_neg lp else lp))),
          st1))"

definition likelihood_der1_eta ::
  "mixed_cor \<Rightarrow> scale \<Rightarrow> vec \<Rightarrow> mat \<Rightarrow> hyperparam \<Rightarrow> (error + hyperparam) \<times> scale" where
  "likelihood_der1_eta mc st z X hyperparam =
     (let st1 = set_scale_from_hyperparam st hyperparam
      in (bind_e (get_log_eta hyperparam) (\<lambda>log_eta.
            let eta = log_eta_to_eta log_eta;
                Y = solve mc st1 eta X;
                w = solve_vec mc st1 eta z;
                (n, m) = shape X;
                B = matmul (transpose X) Y
            in bind_e (linalg_inv B) (\<lambda>Binv.
                 let Ytz = mat_vec (transpose Y) z;
                     Binv_Ytz = mat_vec Binv Ytz;
                     Y_Binv_Ytz = mat_vec Y Binv_Ytz;
                     Mz = vec_sub w Y_Binv_Ytz;
                     trace_Kninv = traceinv mc st1 eta 1;
                     YtY = matmul (transpose Y) Y;
                     trace_BinvYtY = trace (matmul Binv YtY);
                     trace_M = np_sub trace_Kninv trace_BinvYtY;
                     zMz = dot z Mz;
                     zM2z = dot Mz Mz;
                     sigma2 = np_div zMz (Fin (of_int (n - m)));
                     dlp_deta = np_mul (Fin (- 0.5)) (np_sub trace_M (np_div zM2z sigma2))
                 in Inr (case hyperparam of
                           Scalar x \<Rightarrow> Scalar dlp_deta
                         | Array a \<Rightarrow> Array [dlp_deta]))),
          st1))"

definition likelihood_der2_eta ::
  "mixed_cor \<Rightarrow> scale \<Rightarrow> vec \<Rightarrow> mat \<Rightarrow> hyperparam \<Rightarrow> (error + scalar_or_matrix) \<times> scale" where
  "likelihood_der2_eta mc st z X hyperparam =
     (let st1 = set_scale_from_hyperparam st hyperparam
      in (bind_e (get_log_eta hyperparam) (\<lambda>log_eta.
            let eta = log_eta_to_eta log_eta;
                Y = solve mc st1 eta X;
                V = solve mc st1 eta Y;
                w = solve_vec mc st1 eta z;
                (n, m) = shape X;
                B = matmul (transpose X) Y
            in bind_e (linalg_inv B) (\<lambda>Binv.
                 let Ytz = mat_vec (transpose Y) z;
                     Binv_Ytz = mat_vec Binv Ytz;
                     Y_Binv_Ytz = mat_vec Y Binv_Ytz;
                     Mz = vec_sub w Y_Binv_Ytz;
                     YtY = matmul (transpose Y) Y;
                     A = matmul Binv YtY;
                     trace_Kn2inv = traceinv mc st1 eta 2;
                     YtV = matmul (transpose Y) V;
                     C = matmul Binv YtV;
                     trace_C = trace C;
                     AA = matmul A A;
                     trace_AA = trace AA;
                     trace_M2 = np_add (np_sub trace_Kn2inv (np_mul (Fin 2) trace_C)) trace_AA;
                     YtMz = mat_vec (transpose Y) Mz;
                     Binv_YtMz = mat_vec Binv YtMz;
                     Y_Binv_YtMz = mat_vec Y Binv_YtMz;
                     v = solve_vec mc st1 eta Mz;
                     MMz = vec_sub v Y_Binv_YtMz;
                     zMz = dot z Mz;
                     zM2z = dot Mz Mz;
                     zM3z = dot Mz MMz;
                     sigma2 = np_div zMz (Fin (of_int (n - m)));
                     d2lp_deta2 =
                       np_mul (Fin 0.5)
                         (np_add
                           (np_sub trace_M2 (np_div (np_mul (Fin 2) zM3z) sigma2))
                           (np_div (np_mul zM2z zM2z)
                                   (np_mul (Fin (of_int (n - m))) (np_mul sigma2 sigma2))))
                 in Inr (case hyperparam of
                           Scalar x \<Rightarrow> Scalar2 d2lp_deta2
                         | Array a \<Rightarrow> Matrix [[d2lp_deta2]]))),
          st1))"

text \<open>\<open>hyperparam.size\<close> (a numpy scalar has size one).\<close>

definition hp_size :: "hyperparam \<Rightarrow> nat" where
  "hp_size hyperparam = (case hyperparam of Scalar x \<Rightarrow> 1 | Array a \<Rightarrow> length a)"

text \<open>\<open>numpy.abs(hyperparam[1:])\<close>; a scalar cannot be sliced.\<close>

definition abs_tail :: "hyperparam \<Rightarrow> error + vec" where
  "abs_tail hyperparam =
     (case hyperparam of Scalar x \<Rightarrow> Inl TypeError | Array a \<Rightarrow> Inr (map np_abs (tl a)))"

definition likelihood_der1_distance_scale ::
  "externals \<Rightarrow> covariance \<Rightarrow> scale \<Rightarrow> vec \<Rightarrow> mat \<Rightarrow> hyperparam \<Rightarrow> (error + vec) \<times> scale" where
  "likelihood_der1_distance_scale ext cov st z X hyperparam =
     (case get_log_eta hyperparam of
        Inl e \<Rightarrow> (Inl e, st)
      | Inr log_eta \<Rightarrow>
          let eta = pow10 log_eta in
          (case abs_tail hyperparam of
             Inl e \<Rightarrow> (Inl e, st)
           | Inr distance_scale \<Rightarrow>
               let st1 = Some distance_scale in
               (bind_e (find_optimal_sigma_sigma0 (mixed_cor_of cov) st1 z X eta)
                  (\<lambda>(sigma, sigma0).
                    let (n, m) = shape X;
                        Y = cov_solve cov st1 sigma sigma0 X;
                        B = matmul (transpose X) Y
                    in bind_e (linalg_inv B) (\<lambda>Binv.
                         let Mz = M_dot ext cov st1 Binv Y sigma sigma0 z;
                             S = get_matrix cov st1 sigma sigma0 []
                         in bind_e (linalg_inv S) (\<lambda>Sinv.
                              Inr (map (\<lambda>p.
                                     let SpMz = cov_dot_vec cov st1 sigma sigma0 Mz [p];
                                         zMSpMz = dot Mz SpMz;
                                         Sp = get_matrix cov st1 sigma sigma0 [p];
                                         SpSinv = matmul Sp Sinv;
                                         trace_SpSinv = imate_trace ext SpSinv;
                                         SpY = cov_dot cov st1 sigma sigma0 Y [p];
                                         YtSpY = matmul (transpose Y) SpY;
                                         BinvYtSpY = matmul Binv YtSpY;
                                         trace_BinvYtSpY = trace BinvYtSpY;
                                         trace_SpM = np_sub trace_SpSinv trace_BinvYtSpY
                                     in np_add (np_mul (Fin (- 0.5)) trace_SpM)
                                               (np_mul (Fin 0.5) zMSpMz))
                                   [0..<length distance_scale])))),
                st1)))"

text \<open>The body of the double loop of \<open>likelihood_der2_distance_scale\<close> at \<open>(p, q)\<close>:
  the value written to \<open>der2_distance_scale[p, q]\<close>.\<close>

definition der2_distance_scale_entry ::
  "externals \<Rightarrow> covariance \<Rightarrow> scale \<Rightarrow> vec \<Rightarrow> mat \<Rightarrow> npfloat \<Rightarrow> npfloat \<Rightarrow> mat \<Rightarrow> mat
     \<Rightarrow> vec \<Rightarrow> mat \<Rightarrow> nat \<Rightarrow> nat \<Rightarrow> npfloat" where
  "der2_distance_scale_entry ext cov st1 z X sigma sigma0 Y Binv Mz Sinv p q =
     (let (n, m) = shape X;
          SpMz = cov_dot_vec cov st1 sigma sigma0 Mz [p];
          MSpMz = M_dot ext cov st1 Binv Y sigma sigma0 SpMz;
          SqMz = (if p = q then SpMz else cov_dot_vec cov st1 sigma sigma0 Mz [q]);
          zMSqMSpMz = dot SqMz MSpMz;
          SpqMz = cov_dot_vec cov st1 sigma sigma0 Mz [p, q];
          zMSpqMz = dot Mz SpqMz;
          Spq = get_matrix cov st1 sigma sigma0 [p, q];
          SpqSinv = matmul Spq Sinv;
          trace_SpqSinv = imate_trace ext SpqSinv;
          SpqY = cov_dot cov st1 sigma sigma0 Y [p, q];
          YtSpqY = matmul (transpose Y) SpqY;
          BinvYtSpqY = matmul Binv YtSpqY;
          trace_BinvYtSpqY = trace BinvYtSpqY;
          trace_SpqM = np_sub trace_SpqSinv trace_BinvYtSpqY;
          Sp = get_matrix cov st1 sigma sigma0 [p];
          SpSinv = matmul Sp Sinv;
          Sq = get_matrix cov st1 sigma sigma0 [q];
          SqSinv = (if p = q then SpSinv else matmul Sq Sinv);
          SpSinvSqSinv = matmul SpSinv SqSinv;
          trace_SpMSqM_1 = imate_trace ext SpSinvSqSinv;
          SpY = matmul Sp Y;
          SqY = (if p = q then SpY else matmul Sq Y);
          SinvSqY = cov_solve cov st1 sigma sigma0 SqY;
          YtSpSinvSqY = matmul (transpose SpY) SinvSqY;
          C21 = matmul Binv YtSpSinvSqY;
          C22 = matmul Binv (transpose YtSpSinvSqY);
          trace_SpMSqM_21 = trace C21;
          trace_SpMSqM_22 = trace C22;
          YtSpY = matmul (transpose Y) SpY;
          YtSqY = (if p = q then YtSpY else matmul (transpose Y) SqY);
          Dp = matmul Binv YtSpY;
          Dq = (if p = q then Dp else matmul Binv YtSqY);
          D = matmul Dp Dq;
          trace_SpMSqM_3 = trace D;
          trace_SpMSqM =
            np_add (np_sub (np_sub trace_SpMSqM_1 trace_SpMSqM_21) trace_SpMSqM_22)
                   trace_SpMSqM_3;
          local_der2_distance_scale =
            np_add
              (np_sub
                (np_add (np_mul (Fin (- 0.5)) trace_SpqM) (np_mul (Fin 0.5) trace_SpMSqM))
                zMSqMSpMz)
              (np_mul (Fin 0.5) zMSpqMz);
          MSqMz = M_dot ext cov st1 Binv Y sigma sigma0 SqMz;
          dp_log_sigma2 = np_div (np_neg (dot z MSpMz)) (Fin (of_int (n - m)));
          dq_log_sigma2 = np_div (np_neg (dot z MSqMz)) (Fin (of_int (n - m)))
      in np_add local_der2_distance_scale
           (np_mul (np_mul (Fin (0.5 * of_int (n - m))) dp_log_sigma2) dq_log_sigma2))"

text \<open>The assignment \<open>A[p, q] = v\<close>, for indices inside the array.\<close>

definition mat_set :: "mat \<Rightarrow> nat \<Rightarrow> nat \<Rightarrow> npfloat \<Rightarrow> mat" where
  "mat_set A p q v = A[p := (A ! p)[q := v]]"

definition likelihood_der2_distance_scale ::
  "externals \<Rightarrow> covariance \<Rightarrow> scale \<Rightarrow> vec \<Rightarrow> mat \<Rightarrow> hyperparam \<Rightarrow> (error + mat) \<times> scale" where
  "likelihood_der2_distance_scale ext cov st z X hyperparam =
     (case get_log_eta hyperparam of
        Inl e \<Rightarrow> (Inl e, st)
      | Inr log_eta \<Rightarrow>
          let eta = pow10 log_eta in
          (case abs_tail hyperparam of
             Inl e \<Rightarrow> (Inl e, st)
           | Inr distance_scale \<Rightarrow>
               let st1 = Some distance_scale;
                   size = length distance_scale;
                   der2_distance_scale = replicate size (replicate size (Fin 0))
               in
               (bind_e (find_optimal_sigma_sigma0 (mixed_cor_of cov) st1 z X eta)
                  (\<lambda>(sigma, sigma0).
                    let Y = cov_solve cov st1 sigma sigma0 X;
                        B = matmul (transpose X) Y
                    in bind_e (linalg_inv B) (\<lambda>Binv.
                         let Mz = M_dot ext cov st1 Binv Y sigma sigma0 z;
                             S = get_matrix cov st1 sigma sigma0 []
                         in bind_e (linalg_inv S) (\<lambda>Sinv.
                              Inr (foldl (\<lambda>A p.
                                     foldl (\<lambda>A q.
                                       let v = der2_distance_scale_entry ext cov st1 z X
                                                 sigma sigma0 Y Binv Mz Sinv p q;
                                           A1 = mat_set A p q v
                                       in if p \<noteq> q then mat_set A1 q p v else A1)
                                       A [0..<size])
                                     der2_distance_scale [0..<size])))),
                st1)))"

text \<open>
  The loop of \<open>likelihood_der2_mixed\<close>: \<open>der2_mixed[p] = value\<close> assigns along the first
  axis of the two-dimensional array, filling row \<open>p\<close> with the scalar, and raises
  \<open>IndexError\<close> when there is no row \<open>p\<close>.
\<close>

fun der2_mixed_loop :: "(nat \<Rightarrow> npfloat) \<Rightarrow> nat list \<Rightarrow> mat \<Rightarrow> error + mat" where
  "der2_mixed_loop value [] der2_mixed = Inr der2_mixed"
| "der2_mixed_loop value (p # ps) der2_mixed =
     (if p < length der2_mixed
      then der2_mixed_loop value ps
             (der2_mixed[p := replicate (length (der2_mixed ! p)) (value p)])
      else Inl IndexError)"

text \<open>The value that iteration \<open>p\<close> of that loop computes.\<close>

definition der2_mixed_value ::
  "externals \<Rightarrow> covariance \<Rightarrow> scale \<Rightarrow> npfloat \<Rightarrow> npfloat \<Rightarrow> mat \<Rightarrow> mat \<Rightarrow> mat \<Rightarrow> mat
     \<Rightarrow> vec \<Rightarrow> vec \<Rightarrow> mat \<Rightarrow> nat \<Rightarrow> npfloat" where
  "der2_mixed_value ext cov st1 sigma sigma0 Y YtY V Binv Mz MMz Sinv2 p =
     (let SpMz = cov_dot_vec cov st1 sigma sigma0 Mz [p];
          zMSpMMz = dot SpMz MMz;
          Sp = get_matrix cov st1 sigma sigma0 [p];
          SpSinv2 = matmul Sp Sinv2;
          trace_SpSinv2 = imate_trace ext SpSinv2;
          SpY = cov_dot cov st1 sigma sigma0 Y [p];
          YtSpY = matmul (transpose Y) SpY;
          VtSpY = matmul (transpose V) SpY;
          C1 = matmul Binv VtSpY;
          C2 = matmul Binv (transpose VtSpY);
          D1 = matmul Binv YtSpY;
          D2 = matmul Binv YtY;
          D = matmul D1 D2;
          trace_C1 = trace C1;
          trace_C2 = trace C2;
          trace_D = trace D;
          trace_MSpM = np_add (np_sub (np_sub trace_SpSinv2 trace_C1) trace_C2) trace_D
      in np_mul (np_mul sigma sigma)
                (np_sub (np_mul (Fin 0.5) trace_MSpM) zMSpMMz))"

definition likelihood_der2_mixed ::
  "externals \<Rightarrow> covariance \<Rightarrow> scale \<Rightarrow> vec \<Rightarrow> mat \<Rightarrow> hyperparam \<Rightarrow> (error + mat) \<times> scale" where
  "likelihood_der2_mixed ext cov st z X hyperparam =
     (case get_log_eta hyperparam of
        Inl e \<Rightarrow> (Inl e, st)
      | Inr log_eta \<Rightarrow>
          let eta = pow10 log_eta in
          (case abs_tail hyperparam of
             Inl e \<Rightarrow> (Inl e, st)
           | Inr distance_scale \<Rightarrow>
               let st1 = Some distance_scale;
                   size = length distance_scale;
                   der2_mixed = [replicate size (Fin 0)]
               in
               (bind_e (find_optimal_sigma_sigma0 (mixed_cor_of cov) st1 z X eta)
                  (\<lambda>(sigma, sigma0).
                    let Y = cov_solve cov st1 sigma sigma0 X;
                        YtY = matmul (transpose Y) Y;
                        V = cov_solve cov st1 sigma sigma0 Y;
                        B = matmul (transpose X) Y
                    in bind_e (linalg_inv B) (\<lambda>Binv.
                         let Mz = M_dot ext cov st1 Binv Y sigma sigma0 z;
                             MMz = M_dot ext cov st1 Binv Y sigma sigma0 Mz;
                             S = get_matrix cov st1 sigma sigma0 []
                         in bind_e (linalg_inv S) (\<lambda>Sinv.
                              let Sinv2 = matmul Sinv Sinv
                              in der2_mixed_loop
                                   (der2_mixed_value ext cov st1 sigma sigma0 Y YtY V Binv
                                      Mz MMz Sinv2)
                                   [0..<size] der2_mixed))),
                st1)))"

definition hp_neg :: "hyperparam \<Rightarrow> hyperparam" where
  "hp_neg h = (case h of Scalar x \<Rightarrow> Scalar (np_neg x) | Array a \<Rightarrow> Array (map np_neg a))"

definition hp_as_vec :: "hyperparam \<Rightarrow> vec" where
  "hp_as_vec h = (case h of Scalar x \<Rightarrow> [x] | Array a \<Rightarrow> a)"

definition likelihood_jacobian ::
  "externals \<Rightarrow> covariance \<Rightarrow> scale \<Rightarrow> vec \<Rightarrow> mat \<Rightarrow> bool \<Rightarrow> hyperparam
     \<Rightarrow> (error + hyperparam) \<times> scale" where
  "likelihood_jacobian ext cov st z X sign_switch hyperparam =
     bind_se (likelihood_der1_eta (mixed_cor_of cov) st z X hyperparam) (\<lambda>der1_eta st1.
       bind_se
         (if 1 < hp_size hyperparam then
            bind_se (likelihood_der1_distance_scale ext cov st1 z X hyperparam)
              (\<lambda>der1_distance_scale st2.
                 (Inr (Array (hp_as_vec der1_eta @ der1_distance_scale)), st2))
          else (Inr der1_eta, st1))
         (\<lambda>jacobian st3. (Inr (if sign_switch then hp_neg jacobian else jacobian), st3)))"

definition sm_neg :: "scalar_or_matrix \<Rightarrow> scalar_or_matrix" where
  "sm_neg h = (case h of Scalar2 x \<Rightarrow> Scalar2 (np_neg x) | Matrix A \<Rightarrow> Matrix (map (map np_neg) A))"

definition sm_as_mat :: "scalar_or_matrix \<Rightarrow> mat" where
  "sm_as_mat h = (case h of Scalar2 x \<Rightarrow> [[x]] | Matrix A \<Rightarrow> A)"

text \<open>\<open>numpy.block([[a, b], [c, d]])\<close>.\<close>

definition block :: "mat \<Rightarrow> mat \<Rightarrow> mat \<Rightarrow> mat \<Rightarrow> mat" where
  "block a b c d = map2 (@) a b @ map2 (@) c d"

definition likelihood_hessian ::
  "externals \<Rightarrow> covariance \<Rightarrow> scale \<Rightarrow> vec \<Rightarrow> mat \<Rightarrow> bool \<Rightarrow> hyperparam
     \<Rightarrow> (error + scalar_or_matrix) \<times> scale" where
  "likelihood_hessian ext cov st z X sign_switch hyperparam =
     bind_se (likelihood_der2_eta (mixed_cor_of cov) st z X hyperparam) (\<lambda>der2_eta st1.
       bind_se
         (if 1 < hp_size hyperparam then
            bind_se (likelihood_der2_distance_scale ext cov st1 z X hyperparam)
              (\<lambda>der2_distance_scale st2.
                 bind_se (likelihood_der2_mixed ext cov st2 z X hyperparam)
                   (\<lambda>der2_mixed st3.
                      (Inr (Matrix (block (sm_as_mat der2_eta) der2_mixed
                                          (transpose der2_mixed) der2_distance_scale)),
                       st3)))
          else (Inr der2_eta, st1))
         (\<lambda>hessian st4. (Inr (if sign_switch then sm_neg hessian else hessian), st4)))"


text \<open>
  The result dictionary, flattened: the entries of \<open>result['hyperparam']\<close> and of
  \<open>result['optimization']\<close>. The wall-clock and process times of \<open>result['time']\<close>
  are not modelled.
\<close>

record result =
  res_sigma :: npfloat
  res_sigma0 :: npfloat
  res_eta :: npfloat
  res_distance_scale :: scale
  res_max_likelihood :: "npfloat option"
  res_iter :: nat

text \<open>\<open>partial(ProfileLikelihood.likelihood_der1_eta, z, X, mixed_cor)\<close>, called by the
  root finders with a scalar \<open>log_eta\<close>.\<close>

definition likelihood_der1_eta_partial_function ::
  "mixed_cor \<Rightarrow> scale \<Rightarrow> vec \<Rightarrow> mat \<Rightarrow> npfloat \<Rightarrow> error + npfloat" where
  "likelihood_der1_eta_partial_function mc st z X x =
     bind_e (fst (likelihood_der1_eta mc st z X (Scalar x)))
       (\<lambda>r. case r of Scalar d \<Rightarrow> Inr d | Array a \<Rightarrow> Inl TypeError)"

definition find_likelihood_der1_zeros ::
  "externals \<Rightarrow> mixed_cor \<Rightarrow> scale \<Rightarrow> vec \<Rightarrow> mat \<Rightarrow> npfloat \<times> npfloat \<Rightarrow> npfloat \<Rightarrow> nat \<Rightarrow> nat
     \<Rightarrow> error + result" where
  "find_likelihood_der1_zeros ext mc st z X interval_eta tol max_iterations num_bracket_trials =
     (let log_eta_start = np_log10 (fst interval_eta);
          log_eta_end = np_log10 (snd interval_eta);
          f = likelihood_der1_eta_partial_function mc st z X;
          bracket0 = (log_eta_start, log_eta_end)
      in bind_e (find_interval_with_sign_change ext f bracket0 num_bracket_trials)
           (\<lambda>(bracket_found, bracket, bracket_values).
              if bracket_found then
                bind_e (chandrupatla_method ext f bracket bracket_values tol tol max_iterations)
                  (\<lambda>(root, iterations).
                     let eta = pow10 root
                     in bind_e (find_optimal_sigma_sigma0 mc st z X eta) (\<lambda>(sigma, sigma0).
                          Inr \<lparr>res_sigma = sigma, res_sigma0 = sigma0, res_eta = eta,
                               res_distance_scale = None, res_max_likelihood = None,
                               res_iter = iterations\<rparr>))
              else
                let dlp_deta_left = fst bracket_values;
                    dlp_deta_right = snd bracket_values;
                    eta_zero = Fin 0
                in bind_e (fst (likelihood_der2_eta mc st z X (Scalar eta_zero)))
                     (\<lambda>r. case r of
                        Matrix A \<Rightarrow> Inl TypeError
                      | Scalar2 d2lp_deta2_zero_eta \<Rightarrow>
                          (case
                             (if np_gt dlp_deta_left (Fin 0) \<and> np_gt dlp_deta_right (Fin 0)
                              then Some (if np_gt d2lp_deta2_zero_eta (Fin 0)
                                         then Fin 0 else PInf)
                              else if np_lt dlp_deta_left (Fin 0) \<and> np_lt dlp_deta_right (Fin 0)
                              then Some (if np_lt d2lp_deta2_zero_eta (Fin 0)
                                         then Fin 0 else PInf)
                              else None)
                           of
                             None \<Rightarrow> Inl (UnboundLocalError ''eta'')
                           | Some eta \<Rightarrow>
                               if \<not> (eta = Fin 0 \<or> np_isinf eta)
                               then Inl (ValueError ''eta must be zero or inf at this point.'')
                               else bind_e (find_optimal_sigma_sigma0 mc st z X eta)
                                      (\<lambda>(sigma, sigma0).
                                         Inr \<lparr>res_sigma = sigma, res_sigma0 = sigma0,
                                              res_eta = eta, res_distance_scale = None,
                                              res_max_likelihood = None, res_iter = 0\<rparr>)))))"

text \<open>\<open>numpy.min\<close> and \<open>numpy.max\<close> of a two-element list; NaN propagates.\<close>

definition np_min :: "npfloat \<Rightarrow> npfloat \<Rightarrow> npfloat" where
  "np_min a b = (if a = NaN \<or> b = NaN then NaN else if np_lt b a then b else a)"

definition np_max :: "npfloat \<Rightarrow> npfloat \<Rightarrow> npfloat" where
  "np_max a b = (if a = NaN \<or> b = NaN then NaN else if np_lt a b then b else a)"

text \<open>The search interval of the \<open>chandrupatla\<close> branch of \<open>maximize_likelihood\<close>:
  \<open>min_eta_guess\<close> and \<open>max_eta_guess\<close>.\<close>

definition interval_eta_of_guess :: "npfloat \<Rightarrow> npfloat \<times> npfloat" where
  "interval_eta_of_guess log_eta_guess =
     (let min_eta_guess = np_min (Fin (1 / 10 ^ 4)) (np_mul (pow10 log_eta_guess) (Fin (1 / 10 ^ 2)));
          max_eta_guess = np_max (Fin (10 ^ 3)) (np_mul (pow10 log_eta_guess) (Fin (10 ^ 2)))
      in (min_eta_guess, max_eta_guess))"

text \<open>
  \<open>maximize_likelihood\<close>; the warnings of the \<open>chandrupatla\<close> branch are not modelled.
  The call of \<open>find_likelihood_der1_zeros\<close> leaves its keyword arguments at their
  defaults \<open>tol=1e-6, max_iterations=100, num_bracket_trials=3\<close>.
\<close>

definition maximize_likelihood ::
  "externals \<Rightarrow> covariance \<Rightarrow> scale \<Rightarrow> vec \<Rightarrow> mat \<Rightarrow> npfloat \<Rightarrow> vec \<Rightarrow> string
     \<Rightarrow> (error + result) \<times> scale" where
  "maximize_likelihood ext cov st z X tol hyperparam_guess optimization_method =
     (if optimization_method = ''chandrupatla'' then
        let st1 = (if 1 < length hyperparam_guess
                   then (case st of None \<Rightarrow> Some (tl hyperparam_guess) | Some d \<Rightarrow> st)
                   else st)
        in (case hyperparam_guess of
              [] \<Rightarrow> (Inl IndexError, st1)
            | log_eta_guess # rest \<Rightarrow>
                let interval_eta = interval_eta_of_guess log_eta_guess
                in (case find_likelihood_der1_zeros ext (mixed_cor_of cov) st1 z X interval_eta
                           (Fin (1 / 10 ^ 6)) 100 3 of
                      Inl e \<Rightarrow> (Inl e, st1)
                    | Inr result \<Rightarrow>
                        bind_se (likelihood (mixed_cor_of cov) st1 z X False
                                   (Scalar (res_eta result)))
                          (\<lambda>lp st2.
                             (Inr (result\<lparr>res_max_likelihood := Some lp,
                                          res_distance_scale := st2\<rparr>), st2))))
      else
        bind_se
          (minimize ext optimization_method tol
             (\<lambda>x s. likelihood (mixed_cor_of cov) s z X True (Array x))
             (\<lambda>x s. likelihood_jacobian ext cov s z X True (Array x))
             (\<lambda>x s. likelihood_hessian ext cov s z X True (Array x))
             hyperparam_guess st)
          (\<lambda>res st1.
             (case opt_x res of
                [] \<Rightarrow> (Inl IndexError, st1)
              | log_eta # rest \<Rightarrow>
                  let eta = log_eta_to_eta log_eta
                  in (bind_e (find_optimal_sigma_sigma0 (mixed_cor_of cov) st1 z X eta)
                        (\<lambda>(sigma, sigma0).
                           let max_lp = np_neg (opt_fun res);
                               distance_scale =
                                 (if 1 < length (opt_x res) then Some (map np_abs rest)
                                  else st1)
                           in Inr \<lparr>res_sigma = sigma, res_sigma0 = sigma0, res_eta = eta,
                                   res_distance_scale = distance_scale,
                                   res_max_likelihood = Some max_lp,
                                   res_iter = opt_nit res\<rparr>),
                      st1))))"

section \<open>DoubleProfileLikelihood\<close>

text \<open>\<open>_find_optimal_eta\<close>; its callers leave \<open>optimization_method\<close> at the default
  \<open>'Nelder-Mead'\<close>.\<close>

definition find_optimal_eta ::
  "externals \<Rightarrow> covariance \<Rightarrow> scale \<Rightarrow> vec \<Rightarrow> mat \<Rightarrow> vec \<Rightarrow> npfloat \<Rightarrow> string
     \<Rightarrow> (error + npfloat) \<times> scale" where
  "find_optimal_eta ext cov st z X distance_scale log_eta_guess optimization_method =
     (let st1 = Some distance_scale
      in bind_se (maximize_likelihood ext cov st1 z X (Fin (1 / 10 ^ 3)) [log_eta_guess]
                    optimization_method)
           (\<lambda>result st2. (Inr (res_eta result), st2)))"

text \<open>\<open>DoubleProfileLikelihood.likelihood\<close>; here \<open>hyperparam\<close> is the length-scale
  vector alone.\<close>

definition double_likelihood ::
  "externals \<Rightarrow> covariance \<Rightarrow> scale \<Rightarrow> vec \<Rightarrow> mat \<Rightarrow> bool \<Rightarrow> npfloat \<Rightarrow> vec
     \<Rightarrow> (error + npfloat) \<times> scale" where
  "double_likelihood ext cov st z X sign_switch log_eta_guess hyperparam =
     (let distance_scale = map np_abs hyperparam;
          st1 = Some distance_scale
      in bind_se (find_optimal_eta ext cov st1 z X distance_scale log_eta_guess ''Nelder-Mead'')
           (\<lambda>eta st2.
              let log_eta = np_log eta;
                  hyperparam_full = log_eta # distance_scale
              in likelihood (mixed_cor_of cov) st2 z X sign_switch (Array hyperparam_full)))"

text \<open>
  What a name of the module namespace can be bound to. The namespace of
  \<open>_double_profile_likelihood\<close> holds its imports and its class; the names that the star
  import of \<open>plot_utilities\<close> brings in are a parameter. A name that is neither local to
  a function nor in the module namespace (nor a builtin, which \<open>log_eta_guess\<close> is not)
  raises \<open>NameError\<close> when it is read.
\<close>

datatype pyobject = PyModule | PyFunction | PyClass | PyFloat npfloat

definition module_namespace :: "(string \<times> pyobject) list \<Rightarrow> (string \<times> pyobject) list" where
  "module_namespace plot_utilities_star =
     [(''time'', PyModule), (''numpy'', PyModule), (''scipy'', PyModule),
      (''partial'', PyFunction)]
     @ plot_utilities_star
     @ [(''load_plot_settings'', PyFunction), (''save_plot'', PyFunction),
        (''plt'', PyModule), (''mark_inset'', PyFunction), (''InsetPosition'', PyClass),
        (''matplotlib'', PyModule), (''ProfileLikelihood'', PyClass),
        (''DoubleProfileLikelihood'', PyClass)]"

text \<open>
  \<open>DoubleProfileLikelihood.likelihood_hessian(z, X, cov, sign_switch, hyperparam)\<close>. Its
  parameters and the names it assigns are \<open>z, X, cov, sign_switch, hyperparam,
  distance_scale, eta, log_eta, hyperparam_full, der2_distance_scale, hessian\<close>; the name
  \<open>log_eta_guess\<close> that it reads is none of them, so Python looks it up in the module
  namespace.
\<close>

definition double_likelihood_hessian ::
  "(string \<times> pyobject) list \<Rightarrow> externals \<Rightarrow> covariance \<Rightarrow> scale \<Rightarrow> vec \<Rightarrow> mat \<Rightarrow> bool \<Rightarrow> vec
     \<Rightarrow> (error + mat) \<times> scale" where
  "double_likelihood_hessian plot_utilities_star ext cov st z X sign_switch hyperparam =
     (let distance_scale = map np_abs hyperparam;
          st1 = Some distance_scale
      in (case map_of (module_namespace plot_utilities_star) ''log_eta_guess'' of
            None \<Rightarrow> (Inl (NameError ''log_eta_guess''), st1)
          | Some obj \<Rightarrow>
              (case obj of
                 PyFloat log_eta_guess \<Rightarrow>
                   bind_se (find_optimal_eta ext cov st1 z X distance_scale log_eta_guess
                              ''Nelder-Mead'')
                     (\<lambda>eta st2.
                        let log_eta = np_log eta;
                            hyperparam_full = log_eta # distance_scale
                        in likelihood_der2_distance_scale ext cov st2 z X (Array hyperparam))
               | _ \<Rightarrow> (Inl TypeError, st1))))"

section \<open>A concrete data set\<close>

text \<open>
  Three observations \<open>z = (3, 1, 0)\<close> with the design matrix \<open>X = (0, 0, 1)\<^sup>T\<close>
  (\<open>n = 3\<close>, \<open>m = 1\<close>) and the correlation matrix \<open>K\<close> in which the first two points
  have correlation \<open>1/2\<close> and the third is uncorrelated with them. The operator is the
  dense one: \<open>K\<^sub>n(eta) = K + eta I\<close>, \<open>solve\<close> multiplies by its inverse, \<open>logdet\<close>
  is the logarithm of its determinant, \<open>traceinv\<close> the trace of a power of its inverse.
  Its length-scale is fixed, so the state is ignored.
\<close>

definition ex_z :: vec where
  "ex_z = [Fin 3, Fin 1, Fin 0]"

definition ex_X :: mat where
  "ex_X = [[Fin 0], [Fin 0], [Fin 1]]"

definition ex_Kn :: "npfloat \<Rightarrow> mat" where
  "ex_Kn eta = [[np_add (Fin 1) eta, Fin (1 / 2), Fin 0],
                [Fin (1 / 2), np_add (Fin 1) eta, Fin 0],
                [Fin 0, Fin 0, np_add (Fin 1) eta]]"

definition ex_Kn_inv :: "npfloat \<Rightarrow> mat" where
  "ex_Kn_inv eta =
     (case linalg_inv (ex_Kn eta) of
        Inr A \<Rightarrow> A
      | Inl e \<Rightarrow> replicate 3 (replicate 3 NaN))"

definition ex_mixed_cor :: mixed_cor where
  "ex_mixed_cor =
     \<lparr>solve = (\<lambda>st eta rhs. matmul (ex_Kn_inv eta) rhs),
      logdet = (\<lambda>st eta. np_log (linalg_det (ex_Kn eta))),
      traceinv = (\<lambda>st eta exponent.
                    trace (if exponent = 2 then matmul (ex_Kn_inv eta) (ex_Kn_inv eta)
                           else ex_Kn_inv eta))\<rparr>"

text \<open>
  The covariance of the example, \<open>S = sigma\<^sup>2 K + sigma0\<^sup>2 I\<close>. The correlation does not
  depend on the length-scale, so its derivatives with respect to the length-scale vanish.
\<close>

definition ex_S :: "npfloat \<Rightarrow> npfloat \<Rightarrow> mat" where
  "ex_S sigma sigma0 =
     (let s = np_mul sigma sigma; s0 = np_mul sigma0 sigma0
      in [[np_add s s0, np_mul s (Fin (1 / 2)), Fin 0],
          [np_mul s (Fin (1 / 2)), np_add s s0, Fin 0],
          [Fin 0, Fin 0, np_add s s0]])"

definition ex_S_inv :: "npfloat \<Rightarrow> npfloat \<Rightarrow> mat" where
  "ex_S_inv sigma sigma0 =
     (case linalg_inv (ex_S sigma sigma0) of
        Inr A \<Rightarrow> A
      | Inl e \<Rightarrow> replicate 3 (replicate 3 NaN))"

definition ex_cov :: covariance where
  "ex_cov =
     \<lparr>mixed_cor_of = ex_mixed_cor,
      cov_solve = (\<lambda>st sigma sigma0 rhs. matmul (ex_S_inv sigma sigma0) rhs),
      get_matrix = (\<lambda>st sigma sigma0 derivative.
                      if derivative = [] then ex_S sigma sigma0
                      else replicate 3 (replicate 3 (Fin 0))),
      cov_dot = (\<lambda>st sigma sigma0 rhs derivative.
                   matmul (if derivative = [] then ex_S sigma sigma0
                           else replicate 3 (replicate 3 (Fin 0))) rhs)\<rparr>"

text \<open>
  Stand-ins for the imported functions: a bracket search that only evaluates the two ends
  of the interval it is given, a root refiner by bisection, \<open>M z = S\<^sup>-\<^sup>1 z - Y B\<^sup>-\<^sup>1 Y\<^sup>T z\<close>,
  the exact trace, and an optimiser that stops at its starting point.
\<close>

definition ex_find_interval ::
  "(npfloat \<Rightarrow> error + npfloat) \<Rightarrow> npfloat \<times> npfloat \<Rightarrow> nat
     \<Rightarrow> error + bool \<times> (npfloat \<times> npfloat) \<times> (npfloat \<times> npfloat)" where
  "ex_find_interval f bracket num_trials =
     bind_e (f (fst bracket)) (\<lambda>f_lo.
       bind_e (f (snd bracket)) (\<lambda>f_hi.
         Inr (np_lt (np_mul f_lo f_hi) (Fin 0), bracket, (f_lo, f_hi))))"

fun ex_bisection ::
  "(npfloat \<Rightarrow> error + npfloat) \<Rightarrow> npfloat \<Rightarrow> npfloat \<Rightarrow> npfloat \<Rightarrow> nat \<Rightarrow> nat
     \<Rightarrow> error + npfloat \<times> nat" where
  "ex_bisection f lo hi f_lo 0 k = Inr (np_div (np_add lo hi) (Fin 2), k)"
| "ex_bisection f lo hi f_lo (Suc fuel) k =
     (let mid = np_div (np_add lo hi) (Fin 2)
      in bind_e (f mid) (\<lambda>f_mid.
           if np_lt (np_mul f_lo f_mid) (Fin 0)
           then ex_bisection f lo mid f_lo fuel (Suc k)
           else ex_bisection f mid hi f_mid fuel (Suc k)))"

definition ex_M_dot ::
  "covariance \<Rightarrow> scale \<Rightarrow> mat \<Rightarrow> mat \<Rightarrow> npfloat \<Rightarrow> npfloat \<Rightarrow> vec \<Rightarrow> vec" where
  "ex_M_dot cov st Binv Y sigma sigma0 z =
     (let w = concat (cov_solve cov st sigma sigma0 (map (\<lambda>x. [x]) z));
          Ytz = mat_vec (transpose Y) z
      in vec_sub w (mat_vec Y (mat_vec Binv Ytz)))"

definition ex_ext :: externals where
  "ex_ext =
     \<lparr>find_interval_with_sign_change = ex_find_interval,
      chandrupatla_method =
        (\<lambda>f bracket bracket_values eps_m eps_a maxiter.
           ex_bisection f (fst bracket) (snd bracket) (fst bracket_values) maxiter 0),
      M_dot = ex_M_dot,
      imate_trace = trace,
      minimize =
        (\<lambda>method tol f jac hess x0 st.
           bind_se (f x0 st) (\<lambda>v st1. (Inr \<lparr>opt_x = x0, opt_fun = v, opt_nit = 0\<rparr>, st1)))\<rparr>"


text \<open>
  The concentrated log-likelihood of the example as a function of \<open>eta\<close>, in closed form
  (lemma \<open>ex_likelihood_general\<close> shows that \<open>likelihood\<close> computes it).
\<close>

definition ex_lp_eta :: "real \<Rightarrow> real" where
  "ex_lp_eta e = - ln (2 * pi) - 1 - ln (10 * e + 7) + ln 2
                 + ln ((1 + e) * (1 + e) - 1 / 4) / 2"


section \<open>Evaluation lemmas\<close>

lemmas la_defs = shape_def np_sum_def dot_def mat_vec_def matmul_def vec_sub_def drop_nth_def
  bind_e_def is_square_def cofactor_def linalg_inv_def np_sub_def Let_def

lemma upt_3: "[0..<3] = [0, 1, 2]"
  by (simp add: upt_rec[of 0] upt_rec[of 1] upt_rec[of 2] eval_nat_numeral)

lemma upt_2: "[0..<2] = [0, 1]"
  by (simp add: upt_rec[of 0] upt_rec[of 1] eval_nat_numeral)

lemma upt_S: "[0..<Suc (Suc 0)] = [0, 1]"
  by (simp add: upt_rec[of 0] upt_rec[of 1] eval_nat_numeral)

lemma upt_1: "[0..<Suc 0] = [0]"
  by (simp add: upt_rec[of 0])

lemma det_block:
  "linalg_det [[Fin c, Fin h, Fin 0], [Fin h, Fin c, Fin 0], [Fin 0, Fin 0, Fin c]]
     = Fin (c * (c * c - h * h))"
  apply (simp add: la_defs upt_3 upt_2 upt_S upt_rec[of 0 1])
  apply (simp add: field_simps)
  done

lemma inv_block:
  assumes "c \<noteq> 0" and "c * c - h * h \<noteq> 0"
  shows "linalg_inv [[Fin c, Fin h, Fin 0], [Fin h, Fin c, Fin 0], [Fin 0, Fin 0, Fin c]]
     = Inr [[Fin (c / (c * c - h * h)), Fin (- h / (c * c - h * h)), Fin 0],
            [Fin (- h / (c * c - h * h)), Fin (c / (c * c - h * h)), Fin 0],
            [Fin 0, Fin 0, Fin (1 / c)]]"
proof -
  have nz: "c * (c * c - h * h) \<noteq> 0" using assms by simp
  show ?thesis
    apply (subst linalg_inv_def)
    apply (simp only: det_block Let_def)
    using nz assms
    apply (simp add: is_square_def cofactor_def drop_nth_def np_sum_def upt_3 upt_2 upt_S
             upt_rec[of 0 1])
    done
qed

text \<open>The inverse of \<open>K + eta I\<close> of the example in closed form.\<close>

lemma ex_Kn_inv_fin:
  assumes "0 \<le> e"
  shows "ex_Kn_inv (Fin e) =
     [[Fin ((1 + e) / ((1 + e) * (1 + e) - 1 / 4)),
       Fin (- (1 / 2) / ((1 + e) * (1 + e) - 1 / 4)), Fin 0],
      [Fin (- (1 / 2) / ((1 + e) * (1 + e) - 1 / 4)),
       Fin ((1 + e) / ((1 + e) * (1 + e) - 1 / 4)), Fin 0],
      [Fin 0, Fin 0, Fin (1 / (1 + e))]]"
proof -
  have "(1 + e) * (1 + e) - (1 / 2) * (1 / 2) = (e + 3 / 2) * (e + 1 / 2)"
    by (simp add: field_simps)
  moreover have "(e + 3 / 2) * (e + 1 / 2) > 0" using assms by (intro mult_pos_pos) auto
  ultimately have nz: "(1 + e) * (1 + e) - (1 / 2) * (1 / 2) \<noteq> 0" by linarith
  have c: "1 + e \<noteq> 0" using assms by simp
  show ?thesis
    using inv_block[OF c nz] by (simp add: ex_Kn_inv_def ex_Kn_def)
qed

lemma ex_ols_sigma0: "find_optimal_sigma0 ex_z ex_X = Inr (Fin (sqrt 5))"
  by (simp add: find_optimal_sigma0_def ex_z_def ex_X_def la_defs upt_1)

section \<open>Properties of ProfileLikelihood\<close>

lemma set_scale_idem:
  "set_scale_from_hyperparam (set_scale_from_hyperparam st h) h = set_scale_from_hyperparam st h"
  by (simp add: set_scale_from_hyperparam_def split: hyperparam.splits)

text \<open>
  Claim C5. With \<open>sign_switch=True\<close> the likelihood returns exactly the negation of what
  it returns with \<open>sign_switch=False\<close> on the same arguments and the same operator state,
  for every hyperparameter (so for every \<open>eta \<ge> 0\<close>, \<open>eta = 0\<close> encoded as
  \<open>log_eta = -inf\<close> included); an exception is the same one in both calls, and both
  calls leave the same operator state.
\<close>

theorem likelihood_sign_switch:
  "likelihood mc st z X True hyperparam =
     (map_sum id np_neg (fst (likelihood mc st z X False hyperparam)),
      snd (likelihood mc st z X False hyperparam))"
  by (simp add: likelihood_def bind_e_def Let_def split: sum.splits prod.splits)

text \<open>
  Claim C8. A second call of the likelihood with the same arguments, started in the
  operator state that the first call left (no other \<open>set_distance_scale\<close> in between),
  returns the same value and leaves the same state as the first call.
\<close>

theorem likelihood_idempotent:
  "likelihood mc (snd (likelihood mc st z X sign_switch hyperparam)) z X sign_switch hyperparam
     = likelihood mc st z X sign_switch hyperparam"
  by (simp add: likelihood_def Let_def set_scale_idem)

text \<open>
  Claim C6. When \<open>eta\<close> is infinite and \<open>X\<^sup>T X\<close> is invertible with inverse \<open>G\<close>,
  \<open>find_optimal_sigma_sigma0\<close> returns \<open>sigma = 0\<close> and
  \<open>sigma0 = sqrt(z\<^sup>T (z - X G X\<^sup>T z) / (n - m))\<close>, the ordinary-least-squares residual
  estimator, whatever the correlation operator is.
\<close>

theorem sigma_sigma0_infinite_eta:
  assumes "np_isinf eta" and "linalg_inv (matmul (transpose X) X) = Inr G"
  shows "find_optimal_sigma_sigma0 mc st z X eta =
           Inr (Fin 0,
                np_sqrt (np_div
                  (dot z (vec_sub z (mat_vec X (mat_vec G (mat_vec (transpose X) z)))))
                  (Fin (of_int (fst (shape X) - snd (shape X))))))"
  using assms
  by (auto simp: find_optimal_sigma_sigma0_def find_optimal_sigma0_def np_isinf_def np_gt_def
        max_eta_def bind_e_def Let_def split: prod.splits)

theorem sigma_sigma0_infinite_eta_witness:
  "np_isinf PInf \<and> linalg_inv (matmul (transpose ex_X) ex_X) = Inr [[Fin 1]]
   \<and> find_optimal_sigma_sigma0 ex_mixed_cor None ex_z ex_X PInf = Inr (Fin 0, Fin (sqrt 5))"
proof -
  have h1: "np_isinf PInf" by (simp add: np_isinf_def)
  have h2: "linalg_inv (matmul (transpose ex_X) ex_X) = Inr [[Fin 1]]"
    by (simp add: ex_X_def la_defs upt_1)
  show ?thesis
    using h1 h2 sigma_sigma0_infinite_eta[OF h1 h2, of ex_mixed_cor None ex_z]
    by (simp add: ex_z_def ex_X_def la_defs)
qed

section \<open>The Hessians\<close>

lemma der2_mixed_loop_raises:
  "length A = 1 \<Longrightarrow> der2_mixed_loop v [0..<Suc (Suc k)] A = Inl IndexError"
  by (simp add: upt_conv_Cons del: upt_Suc)

lemma der2_mixed_raises:
  "fst (likelihood_der2_mixed ext cov st z X (Array (log_eta # d1 # d2 # ds))) =
     bind_e (find_optimal_sigma_sigma0 (mixed_cor_of cov) (Some (map np_abs (d1 # d2 # ds))) z X
               (pow10 log_eta))
       (\<lambda>(sigma, sigma0).
          bind_e (linalg_inv (matmul (transpose X)
                    (cov_solve cov (Some (map np_abs (d1 # d2 # ds))) sigma sigma0 X)))
            (\<lambda>Binv.
               bind_e (linalg_inv (get_matrix cov (Some (map np_abs (d1 # d2 # ds)))
                                     sigma sigma0 []))
                 (\<lambda>Sinv. Inl IndexError)))"
  by (simp add: likelihood_der2_mixed_def get_log_eta_def abs_tail_def Let_def
        der2_mixed_loop_raises bind_e_def del: upt_Suc split: sum.splits prod.splits)




section \<open>Properties of DoubleProfileLikelihood\<close>

text \<open>
  Claim C10. Provided the star import of \<open>plot_utilities\<close> does not happen to define
  \<open>log_eta_guess\<close>, every call of \<open>DoubleProfileLikelihood.likelihood_hessian\<close> raises
  \<open>NameError\<close> for \<open>log_eta_guess\<close>, whatever its arguments, after it has set the
  length-scale of the operator; it never returns a Hessian.
\<close>

theorem double_hessian_name_error:
  assumes "map_of plot_utilities_star ''log_eta_guess'' = None"
  shows "double_likelihood_hessian plot_utilities_star ext cov st z X sign_switch hyperparam =
           (Inl (NameError ''log_eta_guess''), Some (map np_abs hyperparam))"
  using assms
  by (simp add: double_likelihood_hessian_def module_namespace_def Let_def map_add_def
        split: option.splits)

theorem double_hessian_name_error_witness:
  "map_of [(''plot_matrix'', PyFunction), (''show_or_save_plot'', PyFunction)]
     ''log_eta_guess'' = None
   \<and> double_likelihood_hessian
       [(''plot_matrix'', PyFunction), (''show_or_save_plot'', PyFunction)]
       ex_ext ex_cov None ex_z ex_X True [Fin (- 2)]
     = (Inl (NameError ''log_eta_guess''), Some [Fin 2])"
proof -
  have h: "map_of [(''plot_matrix'', PyFunction), (''show_or_save_plot'', PyFunction)]
             ''log_eta_guess'' = None"
    by simp
  show ?thesis
    using h double_hessian_name_error[OF h, of ex_ext ex_cov None ex_z ex_X True "[Fin (- 2)]"]
    by simp
qed

section \<open>The search interval of the root-finding branch\<close>




section \<open>Scale estimators on the example, and the branch thresholds\<close>

lemma np_sqrt_Fin: "0 \<le> y \<Longrightarrow> x = y \<Longrightarrow> np_sqrt (Fin x) = Fin (sqrt y)"
  by simp

lemma ex_den_pos: "0 \<le> e \<Longrightarrow> 0 < (1 + e) * (1 + e) - 1 / (4::real)"
proof -
  assume e: "0 \<le> e"
  have "(1 + e) * (1 + e) - 1 / 4 = (e + 3 / 2) * (e + 1 / 2)" by (simp add: field_simps)
  moreover have "(e + 3 / 2) * (e + 1 / 2) > 0" using e by (intro mult_pos_pos) auto
  ultimately show ?thesis by linarith
qed

lemma ex_sigma_general:
  assumes "0 \<le> e"
  shows "find_optimal_sigma ex_mixed_cor st ex_z ex_X (Fin e) =
           Inr (Fin (sqrt ((10 * e + 7) / (2 * ((1 + e) * (1 + e) - 1 / 4)))))"
proof -
  define D where "D = (1 + e) * (1 + e) - 1 / 4"
  have D: "0 < D" using ex_den_pos[OF assms] by (simp add: D_def)
  have c: "0 < 1 + e" using assms by simp
  have inv: "ex_Kn_inv (Fin e) =
     [[Fin ((1 + e) / D), Fin (- (1 / 2) / D), Fin 0],
      [Fin (- (1 / 2) / D), Fin ((1 + e) / D), Fin 0],
      [Fin 0, Fin 0, Fin (1 / (1 + e))]]"
    using ex_Kn_inv_fin[OF assms] by (simp add: D_def)
  have nn: "0 \<le> (10 * e + 7) / (2 * D)" using D assms by simp
  show ?thesis
    unfolding D_def[symmetric]
    using D c
    apply (simp add: find_optimal_sigma_def ex_mixed_cor_def solve_vec_def inv
        ex_z_def ex_X_def la_defs upt_1 del: np_sqrt.simps)
    apply (rule np_sqrt_Fin[OF nn])
    apply (simp add: field_simps)
    done
qed




lemma likelihood_large_eta:
  "np_ge (np_abs (log_eta_to_eta log_eta)) max_eta \<Longrightarrow>
      fst (likelihood mc st z X sign_switch (Scalar log_eta)) =
        bind_e (linalg_inv (matmul (transpose X) X)) (\<lambda>Binv.
          bind_e (find_optimal_sigma0 z X) (\<lambda>sigma0.
            Inr ((if sign_switch then np_neg else id)
                  (np_sub
                    (np_sub
                      (np_sub (Fin (- 0.5 * of_int (fst (shape X) - snd (shape X)) * ln (2 * pi)))
                              (np_mul (Fin (of_int (fst (shape X) - snd (shape X))))
                                      (np_log sigma0)))
                      (np_mul (Fin 0.5) (np_log (linalg_det Binv))))
                    (Fin (0.5 * of_int (fst (shape X) - snd (shape X))))))))"
  by (simp add: likelihood_def get_log_eta_def Let_def bind_e_def
        split: sum.splits prod.splits)





section \<open>The example: likelihood, derivatives and the root search\<close>

lemma ex_det_fin: "linalg_det (ex_Kn (Fin e)) = Fin ((1 + e) * ((1 + e) * (1 + e) - 1 / 4))"
  using det_block[of "1 + e" "1 / 2"] by (simp add: ex_Kn_def)

lemma np_log_Fin: "0 < y \<Longrightarrow> x = y \<Longrightarrow> np_log (Fin x) = Fin (ln y)"
  by simp

lemma ex_likelihood_general:
  assumes e: "0 \<le> e" and small: "e < 10 ^ 16" and h: "get_log_eta h = Inr log_eta"
    and le: "log_eta_to_eta log_eta = Fin e"
  shows "likelihood ex_mixed_cor st ex_z ex_X sign_switch h =
           (Inr (Fin (if sign_switch then - ex_lp_eta e else ex_lp_eta e)),
            set_scale_from_hyperparam st h)"
proof -
  define D where "D = (1 + e) * (1 + e) - 1 / 4"
  have D: "0 < D" using ex_den_pos[OF e] by (simp add: D_def)
  have c: "0 < 1 + e" using e by simp
  have inv: "ex_Kn_inv (Fin e) =
     [[Fin ((1 + e) / D), Fin (- (1 / 2) / D), Fin 0],
      [Fin (- (1 / 2) / D), Fin ((1 + e) / D), Fin 0],
      [Fin 0, Fin 0, Fin (1 / (1 + e))]]"
    using ex_Kn_inv_fin[OF e] by (simp add: D_def)
  have sig: "find_optimal_sigma ex_mixed_cor st' ex_z ex_X (Fin e) =
           Inr (Fin (sqrt ((10 * e + 7) / (2 * D))))" for st'
    using ex_sigma_general[OF e] by (simp add: D_def)
  have det: "linalg_det (ex_Kn (Fin e)) = Fin ((1 + e) * D)"
    by (simp add: ex_det_fin D_def)
  have q: "0 < (10 * e + 7) / (2 * D)" using D e by simp
  have lnsig: "ln (sqrt ((10 * e + 7) / (2 * D))) = (ln (10 * e + 7) - ln 2 - ln D) / 2"
    using D e by (simp add: ln_sqrt ln_div ln_mult)
  have lndet: "ln ((1 + e) * D) = ln (1 + e) + ln D"
    using D c by (simp add: ln_mult)
  have lninv: "ln (1 / (1 + e)) = - ln (1 + e)"
    using c by (simp add: ln_div)
  have nge: "\<not> np_ge (np_abs (Fin e)) max_eta" using e small by (simp add: max_eta_def)
  have sq: "0 < sqrt ((10 * e + 7) / (2 * D))" using q by simp
  have logs: "np_log (Fin (sqrt ((10 * e + 7) / (2 * D)))) = Fin ((ln (10 * e + 7) - ln 2 - ln D) / 2)"
    using sq lnsig by simp
  have logd: "np_log (Fin ((1 + e) * D)) = Fin (ln (1 + e) + ln D)"
    using D c lndet by simp
  have B: "matmul (transpose ex_X) (solve ex_mixed_cor st' (Fin e) ex_X) = [[Fin (1 / (1 + e))]]"
    for st'
    by (simp add: ex_mixed_cor_def inv ex_X_def la_defs)
  have detB: "linalg_det [[Fin (1 / (1 + e))]] = Fin (1 / (1 + e))"
    by (simp add: la_defs upt_1)
  have logB: "np_log (Fin (1 / (1 + e))) = Fin (- ln (1 + e))"
    using c lninv by simp
  have sh: "shape ex_X = (3, 1)" by (simp add: shape_def ex_X_def)
  have ld: "logdet ex_mixed_cor st' (Fin e) = Fin (ln (1 + e) + ln D)" for st'
    by (simp add: ex_mixed_cor_def det logd del: np_log.simps)
  show ?thesis
    unfolding ex_lp_eta_def D_def[symmetric]
    apply (simp only: likelihood_def Let_def h le
        bind_e_def sum.case nge if_False sig B detB logB sh ld
        prod.case logs)
    apply (simp add: np_sub_def field_simps)
    done
qed


lemma ex_der1_at_10:
  "likelihood_der1_eta ex_mixed_cor st ex_z ex_X (Scalar (Fin 1)) =
     (Inr (Scalar (Fin (- 122 / 51681))), st)"
  using ex_Kn_inv_fin[of 10]
  by (simp add: likelihood_der1_eta_def set_scale_from_hyperparam_def get_log_eta_def
      log_eta_to_eta_def np_isneginf_def ex_mixed_cor_def solve_vec_def ex_z_def ex_X_def
      la_defs upt_1)




lemmas ex_eval_defs = set_scale_from_hyperparam_def get_log_eta_def
      log_eta_to_eta_def np_isneginf_def ex_mixed_cor_def solve_vec_def ex_z_def ex_X_def
      la_defs upt_1

lemma ex_der2_at_1:
  "likelihood_der2_eta ex_mixed_cor st ex_z ex_X (Scalar (Fin 0)) =
     (Inr (Scalar2 (Fin (2848 / 65025))), st)"
  using ex_Kn_inv_fin[of 1]
  by (simp add: likelihood_der2_eta_def ex_eval_defs)

lemma ex_der2_at_0:
  "likelihood_der2_eta ex_mixed_cor st ex_z ex_X (Scalar NInf) =
     (Inr (Scalar2 (Fin (- 80 / 441))), st)"
  using ex_Kn_inv_fin[of 0]
  by (simp add: likelihood_der2_eta_def ex_eval_defs)

lemma log10_small: "log 10 (1 / 10 ^ 4) = (- 4 :: real)"
proof -
  have "log 10 (1 / 10 ^ 4) = - log 10 ((10::real) ^ 4)" by (simp add: log_divide)
  also have "log 10 ((10::real) ^ 4) = real 4 * log 10 10" by (rule log_nat_power) simp
  finally show ?thesis by simp
qed

lemma log10_big: "log 10 (10 ^ 3) = (3 :: real)"
proof -
  have "log 10 ((10::real) ^ 3) = real 3 * log 10 10" by (rule log_nat_power) simp
  then show ?thesis by simp
qed

lemma pow10_m4: "(10::real) powr (- 4) = 1 / 10 ^ 4"
  by (simp add: powr_minus_divide)

lemma ex_der1_left:
  "likelihood_der1_eta_partial_function ex_mixed_cor st ex_z ex_X (Fin (- 4)) =
     Inr (Fin (- 50030000000 / 525215027001))"
  using ex_Kn_inv_fin[of "1 / 10 ^ 4"]
  by (simp add: likelihood_der1_eta_partial_function_def likelihood_der1_eta_def ex_eval_defs
        pow10_m4)

lemma ex_der1_right:
  "likelihood_der1_eta_partial_function ex_mixed_cor st ex_z ex_X (Fin 3) =
     Inr (Fin (- 12002 / 40108086021))"
  using ex_Kn_inv_fin[of "10 ^ 3"]
  by (simp add: likelihood_der1_eta_partial_function_def likelihood_der1_eta_def ex_eval_defs)

lemma ex_no_bracket:
  "find_interval_with_sign_change ex_ext
      (likelihood_der1_eta_partial_function ex_mixed_cor st ex_z ex_X) (Fin (- 4), Fin 3) 3
   = Inr (False, (Fin (- 4), Fin 3),
          (Fin (- 50030000000 / 525215027001), Fin (- 12002 / 40108086021)))"
  by (simp add: ex_ext_def ex_find_interval_def ex_der1_left ex_der1_right bind_e_def)

lemma ex_zeros:
  "find_likelihood_der1_zeros ex_ext ex_mixed_cor st ex_z ex_X (Fin (1 / 10 ^ 4), Fin (10 ^ 3))
      (Fin (1 / 10 ^ 6)) 100 3
   = Inr \<lparr>res_sigma = Fin 0, res_sigma0 = Fin (sqrt 5), res_eta = PInf,
          res_distance_scale = None, res_max_likelihood = None, res_iter = 0\<rparr>"
proof -
  have l: "np_log10 (Fin (1 / 10 ^ 4)) = Fin (- 4)" using log10_small by simp
  have r: "np_log10 (Fin (10 ^ 3)) = Fin 3" using log10_big by simp
  have s: "find_optimal_sigma_sigma0 ex_mixed_cor st ex_z ex_X PInf = Inr (Fin 0, Fin (sqrt 5))"
    by (simp add: find_optimal_sigma_sigma0_def np_gt_def max_eta_def ex_ols_sigma0 bind_e_def
          np_isinf_def)
  show ?thesis
    unfolding find_likelihood_der1_zeros_def Let_def fst_conv snd_conv l r ex_no_bracket
    by (simp add: bind_e_def ex_der2_at_1 np_gt_def np_isinf_def s)
qed

lemma ex_lp_eta_deriv:
  assumes "0 \<le> e"
  shows "(ex_lp_eta has_real_derivative
            (- (1 + 6 * e) / (2 * ((1 + e) * (1 + e) - 1 / 4) * (10 * e + 7)))) (at e)"
proof -
  have D: "0 < (1 + e) * (1 + e) - 1 / 4" using ex_den_pos[OF assms] .
  have p: "0 < 10 * e + 7" using assms by simp
  have D': "(1 + e) * (1 + e) \<noteq> 1 / 4" using D by simp
  show ?thesis
    unfolding ex_lp_eta_def
    using D p D'
    apply (auto intro!: derivative_eq_intros)
    apply (simp add: field_simps)
    done
qed

lemma ex_lp_eta_decreasing:
  assumes "0 \<le> a" and "a < b"
  shows "ex_lp_eta b < ex_lp_eta a"
proof (rule DERIV_neg_imp_decreasing[OF \<open>a < b\<close>])
  fix x assume x: "a \<le> x" "x \<le> b"
  then have x0: "0 \<le> x" using assms by simp
  have D: "0 < (1 + x) * (1 + x) - 1 / 4" using ex_den_pos[OF x0] .
  have "- (1 + 6 * x) / (2 * ((1 + x) * (1 + x) - 1 / 4) * (10 * x + 7)) < 0"
    using D x0 by (intro divide_neg_pos mult_pos_pos) auto
  then show "\<exists>y. (ex_lp_eta has_real_derivative y) (at x) \<and> y < 0"
    using ex_lp_eta_deriv[OF x0] by blast
qed

lemma ln10_gt_2: "2 < ln (10::real)"
proof -
  have "exp (2::real) = exp 1 * exp 1" by (simp add: exp_add[symmetric])
  also have "\<dots> \<le> 3 * 3" by (intro mult_mono exp_le) auto
  finally have "exp (2::real) < 10" by simp
  then have "ln (exp (2::real)) < ln 10" by (subst ln_less_cancel_iff) auto
  then show ?thesis by simp
qed

lemma pow10_ln10: "(10::real) < 10 powr ln 10"
proof -
  have "(10::real) powr 1 < 10 powr ln 10"
    by (rule powr_less_mono) (use ln10_gt_2 in auto)
  then show ?thesis by simp
qed

lemma ex_sigma_sigma0_at_10:
  "find_optimal_sigma_sigma0 ex_mixed_cor st ex_z ex_X (Fin 10) =
     Inr (Fin (sqrt (214 / 483)), Fin (sqrt 10 * sqrt (214 / 483)))"
  using ex_sigma_general[of 10 st]
  by (simp add: find_optimal_sigma_sigma0_def np_gt_def max_eta_def min_eta_def bind_e_def)

lemma ex_inner_solve:
  "find_optimal_eta ex_ext ex_cov st ex_z ex_X ds (Fin 1) ''Nelder-Mead'' = (Inr (Fin 10), Some ds)"
proof -
  have le: "log_eta_to_eta (Fin 1) = Fin 10" by (simp add: log_eta_to_eta_def np_isneginf_def)
  have h: "get_log_eta (Array [Fin 1]) = Inr (Fin 1)" by (simp add: get_log_eta_def)
  have f: "likelihood ex_mixed_cor (Some ds) ex_z ex_X True (Array [Fin 1]) =
             (Inr (Fin (- ex_lp_eta 10)), Some ds)"
    using ex_likelihood_general[OF _ _ h le, of "Some ds" True]
    by (simp add: set_scale_from_hyperparam_def)
  have mc: "mixed_cor_of ex_cov = ex_mixed_cor" by (simp add: ex_cov_def)
  have m: "minimize ex_ext = (\<lambda>method tol f jac hess x0 st.
           bind_se (f x0 st) (\<lambda>v st1. (Inr \<lparr>opt_x = x0, opt_fun = v, opt_nit = 0\<rparr>, st1)))"
    by (simp add: ex_ext_def)
  show ?thesis
    unfolding find_optimal_eta_def maximize_likelihood_def Let_def mc m
    by (simp add: f bind_se_def le ex_sigma_sigma0_at_10 bind_e_def)
qed

lemma ex_pow_ln10_small: "(10::real) powr ln 10 < 10 ^ 16"
proof -
  have "ln (10::real) < 10" by (rule ln_less_self) simp
  then have "ln (10::real) < 16" by linarith
  then have "(10::real) powr ln 10 < 10 powr 16" by (intro powr_less_mono) auto
  moreover have "(10::real) powr 16 = 10 ^ 16" by simp
  ultimately show ?thesis by (simp only:)
qed



lemma ex_likelihood_at_zero:
  "fst (likelihood ex_mixed_cor st ex_z ex_X False (Scalar NInf)) = Inr (Fin (ex_lp_eta 0))"
proof -
  have h: "get_log_eta (Scalar NInf) = Inr NInf" by (simp add: get_log_eta_def)
  have le: "log_eta_to_eta NInf = Fin 0" by (simp add: log_eta_to_eta_def np_isneginf_def)
  show ?thesis using ex_likelihood_general[OF _ _ h le, of st False] by simp
qed

lemma ex_likelihood_at_inf:
  "fst (likelihood ex_mixed_cor st ex_z ex_X False (Scalar PInf))
     = Inr (Fin (- ln (2 * pi) - 2 * ln (sqrt 5) - 1))"
proof -
  have inv: "linalg_inv (matmul (transpose ex_X) ex_X) = Inr [[Fin 1]]"
    by (simp add: ex_X_def la_defs upt_1)
  have sh: "shape ex_X = (3, 1)" by (simp add: shape_def ex_X_def)
  have h3: "np_ge (np_abs (log_eta_to_eta PInf)) max_eta"
    by (simp add: log_eta_to_eta_def np_isneginf_def max_eta_def)
  show ?thesis
    unfolding likelihood_large_eta[OF h3]
    by (simp add: ex_ols_sigma0 inv sh bind_e_def np_sub_def np_sum_def upt_1)
qed

lemma ex_zero_beats_inf: "- ln (2 * pi) - 2 * ln (sqrt 5) - 1 < ex_lp_eta 0"
proof -
  have s5: "2 * ln (sqrt 5) = ln (5::real)" by (simp add: ln_sqrt)
  have "ln (49 / 100 :: real) < ln (3 / 4)" by (subst ln_less_cancel_iff) auto
  moreover have "ln (49 / 100 :: real) = 2 * ln 7 - 2 * ln 2 - 2 * ln 5"
  proof -
    have "ln (49 / 100 :: real) = ln ((7 / 10) ^ 2)" by (simp add: power2_eq_square)
    also have "\<dots> = 2 * ln (7 / 10 :: real)" by (simp add: ln_realpow)
    also have "ln (7 / 10 :: real) = ln 7 - ln (2 * 5)" by (simp add: ln_div)
    finally have "ln (49 / 100 :: real) = 2 * (ln 7 - ln (2 * 5))" .
    moreover have "ln (2 * 5 :: real) = ln 2 + ln 5" using ln_mult[of "2::real" 5] by simp
    ultimately show ?thesis by simp
  qed
  ultimately have "2 * ln 7 - 2 * ln 2 - 2 * ln 5 < ln (3 / 4 :: real)" by simp
  then show ?thesis
    unfolding ex_lp_eta_def s5 by simp
qed

section \<open>The mixed derivative on the example\<close>

text \<open>With two length-scale components the example reaches the loop and raises
  \<open>IndexError\<close>; with one component \<open>likelihood_der2_mixed\<close> returns.\<close>

lemma ex_sigma_sigma0_at_1:
  "find_optimal_sigma_sigma0 ex_mixed_cor st ex_z ex_X (Fin 1) =
     Inr (Fin (sqrt (34 / 15)), Fin (sqrt (34 / 15)))"
  using ex_sigma_general[of 1 st]
  by (simp add: find_optimal_sigma_sigma0_def np_gt_def max_eta_def min_eta_def bind_e_def)

lemma ex_S_at_1:
  "ex_S (Fin (sqrt (34 / 15))) (Fin (sqrt (34 / 15))) =
     [[Fin (68 / 15), Fin (17 / 15), Fin 0],
      [Fin (17 / 15), Fin (68 / 15), Fin 0],
      [Fin 0, Fin 0, Fin (68 / 15)]]"
  by (simp add: ex_S_def Let_def)

lemma ex_S_inv_at_1:
  "linalg_inv (ex_S (Fin (sqrt (34 / 15))) (Fin (sqrt (34 / 15)))) =
     Inr [[Fin (4 / 17), Fin (- 1 / 17), Fin 0],
          [Fin (- 1 / 17), Fin (4 / 17), Fin 0],
          [Fin 0, Fin 0, Fin (15 / 68)]]"
  unfolding ex_S_at_1
  using inv_block[of "68 / 15" "17 / 15"] by simp

lemma ex_S_inv_value:
  "ex_S_inv (Fin (sqrt (34 / 15))) (Fin (sqrt (34 / 15))) =
     [[Fin (4 / 17), Fin (- 1 / 17), Fin 0],
      [Fin (- 1 / 17), Fin (4 / 17), Fin 0],
      [Fin 0, Fin 0, Fin (15 / 68)]]"
  by (simp add: ex_S_inv_def ex_S_inv_at_1)

lemma ex_B_inv_at_1:
  "linalg_inv (matmul (transpose ex_X)
      (cov_solve ex_cov s (Fin (sqrt (34 / 15))) (Fin (sqrt (34 / 15))) ex_X))
     = Inr [[Fin (68 / 15)]]"
proof -
  have "matmul (transpose ex_X)
      (cov_solve ex_cov s (Fin (sqrt (34 / 15))) (Fin (sqrt (34 / 15))) ex_X) = [[Fin (15 / 68)]]"
    by (simp add: ex_cov_def ex_S_inv_value ex_X_def matmul_def dot_def np_sum_def)
  then show ?thesis by (simp add: la_defs upt_1)
qed

lemma ex_der2_mixed_two_components:
  "likelihood_der2_mixed ex_ext ex_cov st ex_z ex_X (Array [Fin 0, Fin 1, Fin 1])
     = (Inl IndexError, Some [Fin 1, Fin 1])"
proof -
  have mc: "mixed_cor_of ex_cov = ex_mixed_cor" by (simp add: ex_cov_def)
  note B = ex_B_inv_at_1
  have S: "get_matrix ex_cov s (Fin (sqrt (34 / 15))) (Fin (sqrt (34 / 15))) []
             = ex_S (Fin (sqrt (34 / 15))) (Fin (sqrt (34 / 15)))" for s
    by (simp add: ex_cov_def)
  have f: "fst (likelihood_der2_mixed ex_ext ex_cov st ex_z ex_X (Array [Fin 0, Fin 1, Fin 1]))
             = Inl IndexError"
    unfolding der2_mixed_raises mc
    by (simp add: ex_sigma_sigma0_at_1 bind_e_def B S ex_S_inv_at_1)
  have s: "snd (likelihood_der2_mixed ex_ext ex_cov st ex_z ex_X (Array [Fin 0, Fin 1, Fin 1]))
             = Some [Fin 1, Fin 1]"
    by (simp add: likelihood_der2_mixed_def get_log_eta_def abs_tail_def Let_def)
  show ?thesis using f s by (simp add: prod_eq_iff)
qed

lemma der2_mixed_single_component:
  assumes "find_optimal_sigma_sigma0 (mixed_cor_of cov) (Some [np_abs d1]) z X (pow10 log_eta)
             = Inr (sigma, sigma0)"
    and "linalg_inv (matmul (transpose X) (cov_solve cov (Some [np_abs d1]) sigma sigma0 X))
             = Inr Binv"
    and "linalg_inv (get_matrix cov (Some [np_abs d1]) sigma sigma0 []) = Inr Sinv"
  shows "\<not> isl (fst (likelihood_der2_mixed ext cov st z X (Array [log_eta, d1])))"
  using assms
  by (simp add: likelihood_der2_mixed_def Let_def get_log_eta_def abs_tail_def bind_e_def
        upt_1 del: upt_Suc)

lemma ex_der2_mixed_one_component:
  "\<not> isl (fst (likelihood_der2_mixed ex_ext ex_cov st ex_z ex_X (Array [Fin 0, Fin 1])))"
proof -
  have mc: "mixed_cor_of ex_cov = ex_mixed_cor" by (simp add: ex_cov_def)
  have p: "pow10 (Fin 0) = Fin 1" by simp
  have a: "np_abs (Fin 1) = Fin 1" by simp
  note B = ex_B_inv_at_1
  have S: "linalg_inv (get_matrix ex_cov s (Fin (sqrt (34 / 15))) (Fin (sqrt (34 / 15))) [])
             = Inr [[Fin (4 / 17), Fin (- 1 / 17), Fin 0],
                    [Fin (- 1 / 17), Fin (4 / 17), Fin 0],
                    [Fin 0, Fin 0, Fin (15 / 68)]]" for s
    using ex_S_inv_at_1 by (simp add: ex_cov_def)
  show ?thesis
    by (rule der2_mixed_single_component[where sigma = "Fin (sqrt (34 / 15))"
          and sigma0 = "Fin (sqrt (34 / 15))", OF _ B S])
       (simp only: mc p a ex_sigma_sigma0_at_1)
qed

section \<open>The branch of the root search without a sign change\<close>

text \<open>
  What \<open>find_likelihood_der1_zeros\<close> returns when no bracket is found: the decision
  reads the second derivative at the hyperparameter \<open>0.0\<close>; when the signs at the two ends
  fit neither case, reading the unassigned \<open>eta\<close> raises \<open>UnboundLocalError\<close>, so the
  \<open>ValueError\<close> of the check is never raised.
\<close>

lemma der1_zeros_no_bracket:
  assumes nb: "find_interval_with_sign_change ext (likelihood_der1_eta_partial_function mc st z X)
             (np_log10 a, np_log10 b) k = Inr (False, br, (l, r))"
    and d2: "fst (likelihood_der2_eta mc st z X (Scalar (Fin 0))) = Inr (Scalar2 d)"
  shows "find_likelihood_der1_zeros ext mc st z X (a, b) tol mi k =
     (if (np_gt l (Fin 0) \<and> np_gt r (Fin 0)) \<or> (np_lt l (Fin 0) \<and> np_lt r (Fin 0)) then
        let eta = (if np_gt l (Fin 0) then (if np_gt d (Fin 0) then Fin 0 else PInf)
                   else (if np_lt d (Fin 0) then Fin 0 else PInf))
        in bind_e (find_optimal_sigma_sigma0 mc st z X eta) (\<lambda>(sigma, sigma0).
             Inr \<lparr>res_sigma = sigma, res_sigma0 = sigma0, res_eta = eta,
                  res_distance_scale = None, res_max_likelihood = None, res_iter = 0\<rparr>)
      else Inl (UnboundLocalError ''eta''))"
proof -
  have x: "\<not> (np_gt l (Fin 0) \<and> np_lt l (Fin 0))"
    by (cases l) (auto simp: np_gt_def)
  show ?thesis
    unfolding find_likelihood_der1_zeros_def Let_def fst_conv snd_conv nb
    using x
    by (auto simp: bind_e_def d2 np_isinf_def)
qed

section \<open>Finite differences of the example likelihood\<close>







section \<open>Where the code departs from the claims\<close>

text \<open>
  Claim C1 fails on the code. On the example data with the length-scale \<open>[1]\<close>, the inner
  solve returns \<open>eta = 10\<close>. \<open>DoubleProfileLikelihood.likelihood\<close> then builds
  \<open>[numpy.log(eta), distance_scale]\<close> with the natural logarithm, and
  \<open>ProfileLikelihood.likelihood\<close> decodes \<open>eta = 10^(ln 10) > 10\<close>: the value returned is
  the likelihood at that larger \<open>eta\<close>, which is smaller than the likelihood at the
  \<open>eta\<close> of the inner solve (the vector \<open>[log10(eta), distance_scale]\<close>).
\<close>

theorem double_likelihood_eta_mismatch:
  "find_optimal_eta ex_ext ex_cov (Some [Fin 1]) ex_z ex_X [Fin 1] (Fin 1) ''Nelder-Mead''
     = (Inr (Fin 10), Some [Fin 1])
   \<and> double_likelihood ex_ext ex_cov None ex_z ex_X False (Fin 1) [Fin 1]
     = likelihood ex_mixed_cor (Some [Fin 1]) ex_z ex_X False (Array [Fin (ln 10), Fin 1])
   \<and> map_sum id log_eta_to_eta (get_log_eta (Array [Fin (ln 10), Fin 1]))
     = Inr (Fin (10 powr ln 10))
   \<and> (10::real) < 10 powr ln 10
   \<and> fst (double_likelihood ex_ext ex_cov None ex_z ex_X False (Fin 1) [Fin 1])
     = Inr (Fin (ex_lp_eta (10 powr ln 10)))
   \<and> fst (likelihood ex_mixed_cor (Some [Fin 1]) ex_z ex_X False
            (Array [np_log10 (Fin 10), Fin 1]))
     = Inr (Fin (ex_lp_eta 10))
   \<and> ex_lp_eta (10 powr ln 10) < ex_lp_eta 10"
proof -
  have mc: "mixed_cor_of ex_cov = ex_mixed_cor" by (simp add: ex_cov_def)
  have d: "double_likelihood ex_ext ex_cov None ex_z ex_X False (Fin 1) [Fin 1]
     = likelihood ex_mixed_cor (Some [Fin 1]) ex_z ex_X False (Array [Fin (ln 10), Fin 1])"
    by (simp add: double_likelihood_def Let_def ex_inner_solve bind_se_def mc)
  have dec: "map_sum id log_eta_to_eta (get_log_eta (Array [Fin (ln 10), Fin 1]))
     = Inr (Fin (10 powr ln 10))"
    by (simp add: get_log_eta_def log_eta_to_eta_def np_isneginf_def)
  have h1: "get_log_eta (Array [Fin (ln 10), Fin 1]) = Inr (Fin (ln 10))"
    by (simp add: get_log_eta_def)
  have le1: "log_eta_to_eta (Fin (ln 10)) = Fin (10 powr ln 10)"
    by (simp add: log_eta_to_eta_def np_isneginf_def)
  have v1: "fst (likelihood ex_mixed_cor (Some [Fin 1]) ex_z ex_X False
                   (Array [Fin (ln 10), Fin 1])) = Inr (Fin (ex_lp_eta (10 powr ln 10)))"
    using ex_likelihood_general[OF _ ex_pow_ln10_small h1 le1, of "Some [Fin 1]" False]
    by simp
  have h2: "get_log_eta (Array [np_log10 (Fin 10), Fin 1]) = Inr (Fin 1)"
    by (simp add: get_log_eta_def)
  have le2: "log_eta_to_eta (Fin 1) = Fin 10" by (simp add: log_eta_to_eta_def np_isneginf_def)
  have v2: "fst (likelihood ex_mixed_cor (Some [Fin 1]) ex_z ex_X False
            (Array [np_log10 (Fin 10), Fin 1])) = Inr (Fin (ex_lp_eta 10))"
    using ex_likelihood_general[OF _ _ h2 le2, of "Some [Fin 1]" False] by simp
  have lt: "ex_lp_eta (10 powr ln 10) < ex_lp_eta 10"
    by (rule ex_lp_eta_decreasing) (use pow10_ln10 in auto)
  show ?thesis
    using ex_inner_solve[of "Some [Fin 1]" "[Fin 1]"] d dec pow10_ln10 v1 v2 lt
    by (simp only: simp_thms)
qed


text \<open>
  Claim C7 fails on the code. On the example data with the search interval \<open>[1e-4, 1e3]\<close>
  no sign change is found and the derivative is negative at both ends. The second derivative
  at \<open>eta = 0\<close> is negative, so the rule of the claim selects \<open>eta = 0\<close>. The code passes
  \<open>eta_zero = 0.0\<close> as the hyperparameter \<open>log_eta\<close>, so it reads the second derivative at
  \<open>eta = 10^0 = 1\<close>, which is positive, and returns \<open>eta = inf\<close>, where the likelihood is
  smaller than at \<open>eta = 0\<close>.
\<close>

theorem der1_zeros_second_derivative_at_one:
  "find_interval_with_sign_change ex_ext
      (likelihood_der1_eta_partial_function ex_mixed_cor None ex_z ex_X)
      (np_log10 (Fin (1 / 10 ^ 4)), np_log10 (Fin (10 ^ 3))) 3
     = Inr (False, (Fin (- 4), Fin 3),
            (Fin (- 50030000000 / 525215027001), Fin (- 12002 / 40108086021)))
   \<and> log_eta_to_eta NInf = Fin 0
   \<and> fst (likelihood_der2_eta ex_mixed_cor None ex_z ex_X (Scalar NInf))
     = Inr (Scalar2 (Fin (- 80 / 441)))
   \<and> log_eta_to_eta (Fin 0) = Fin 1
   \<and> fst (likelihood_der2_eta ex_mixed_cor None ex_z ex_X (Scalar (Fin 0)))
     = Inr (Scalar2 (Fin (2848 / 65025)))
   \<and> find_likelihood_der1_zeros ex_ext ex_mixed_cor None ex_z ex_X
        (Fin (1 / 10 ^ 4), Fin (10 ^ 3)) (Fin (1 / 10 ^ 6)) 100 3
     = Inr \<lparr>res_sigma = Fin 0, res_sigma0 = Fin (sqrt 5), res_eta = PInf,
            res_distance_scale = None, res_max_likelihood = None, res_iter = 0\<rparr>
   \<and> fst (likelihood ex_mixed_cor None ex_z ex_X False (Scalar PInf))
     = Inr (Fin (- ln (2 * pi) - 2 * ln (sqrt 5) - 1))
   \<and> fst (likelihood ex_mixed_cor None ex_z ex_X False (Scalar NInf)) = Inr (Fin (ex_lp_eta 0))
   \<and> - ln (2 * pi) - 2 * ln (sqrt 5) - 1 < ex_lp_eta 0"
proof -
  have l: "np_log10 (Fin (1 / 10 ^ 4)) = Fin (- 4)" using log10_small by simp
  have r: "np_log10 (Fin (10 ^ 3)) = Fin 3" using log10_big by simp
  have z0: "log_eta_to_eta NInf = Fin 0" by (simp add: log_eta_to_eta_def np_isneginf_def)
  have z1: "log_eta_to_eta (Fin 0) = Fin 1" by (simp add: log_eta_to_eta_def np_isneginf_def)
  show ?thesis
    unfolding l r
    using ex_no_bracket[of None] z0 z1 ex_der2_at_0[of None] ex_der2_at_1[of None]
      ex_zeros[of None] ex_likelihood_at_inf[of None] ex_likelihood_at_zero[of None]
      ex_zero_beats_inf
    by (simp only: fst_conv simp_thms)
qed

end
